theory Spec2Isabelle
  imports Main
begin

section \<open>Time constants\<close>

text \<open>
  \<^verbatim>\<open>time.Duration\<close> is a count of nanoseconds held in an \<^verbatim>\<open>int64\<close>.
  The four constants of \<^verbatim>\<open>controller.go\<close> are compile-time constant
  expressions far below \<open>2^63\<close>, so plain integers carry them exactly.
\<close>

type_synonym Duration = int

definition Second :: Duration where
  "Second = 1000000000"

definition Minute :: Duration where
  "Minute = 60 * Second"

definition defaultSyncTime :: Duration where
  "defaultSyncTime = Minute"

definition dhSyncTime :: Duration where
  "dhSyncTime = Minute * 3"

definition routeSyncTime :: Duration where
  "routeSyncTime = Minute * 10"

definition coreSyncTime :: Duration where
  "coreSyncTime = Minute * 10"

section \<open>Errors and panics\<close>

text \<open>
  An error value is either an API status error, which carries a status reason, or any
  other error. \<^verbatim>\<open>errors.IsNotFound\<close> looks at the reason only.
\<close>

datatype statusReason =
    StatusReasonNotFound
  | StatusReasonConflict
  | StatusReasonTimeout
  | StatusReasonUnknown

datatype error =
    StatusError statusReason string
  | PlainError string

fun IsNotFound :: "error \<Rightarrow> bool" where
  "IsNotFound (StatusError r m) = (r = StatusReasonNotFound)"
| "IsNotFound (PlainError m) = False"

text \<open>
  The three ways this code can panic: a send on a closed channel, a second
  \<^verbatim>\<open>close\<close> of a channel, and the \<^verbatim>\<open>panic(err)\<close> inside a
  \<^verbatim>\<open>NewForConfigOrDie\<close> constructor.
\<close>

datatype panic =
    SendOnClosedChannel
  | CloseOfClosedChannel
  | PanicError error

text \<open>
  What a call does: it returns, it parks the calling goroutine (with the state it
  leaves behind), or it panics.
\<close>

datatype 'a outcome =
    Returns 'a
  | Blocks 'a
  | Panics panic

section \<open>The observer resource\<close>

record Condition =
  condType :: string
  condStatus :: string
  condReason :: string
  condMessage :: string
  observedGeneration :: int

record ObjectReference =
  refKind :: string
  refName :: string
  refNamespace :: string
  refUID :: string
  refResourceVersion :: string

record SDIObserverSpecRoute =
  ManagementState :: string
  Hostname :: string

record SDIObserverSpec =
  SdiNamespace :: string
  SlcbNamespace :: string
  SlcbRoute :: SDIObserverSpecRoute
  VsystemRoute :: SDIObserverSpecRoute

record SDIObserverStatus =
  Conditions :: "Condition list"
  ManagedDataHubRef :: "ObjectReference option"
  SlcbRouteConditions :: "Condition list"
  VsystemRouteConditions :: "Condition list"

record SdiObserver =
  Name :: string
  Namespace :: string
  Generation :: int
  Spec :: SDIObserverSpec
  Status :: SDIObserverStatus

text \<open>The zero value \<^verbatim>\<open>sdiv1alpha1.SdiObserver{}\<close>: every string empty, every slice nil.\<close>

definition zeroRoute :: SDIObserverSpecRoute where
  "zeroRoute = \<lparr> ManagementState = [], Hostname = [] \<rparr>"

definition zeroSdiObserver :: SdiObserver where
  "zeroSdiObserver =
     \<lparr> Name = [], Namespace = [], Generation = 0,
       Spec = \<lparr> SdiNamespace = [], SlcbNamespace = [],
                SlcbRoute = zeroRoute, VsystemRoute = zeroRoute \<rparr>,
       Status = \<lparr> Conditions = [], ManagedDataHubRef = None,
                  SlcbRouteConditions = [], VsystemRouteConditions = [] \<rparr> \<rparr>"

record NamespacedName =
  nnNamespace :: string
  nnName :: string

datatype GenericEvent = GenericEvent SdiObserver

section \<open>Channels\<close>

text \<open>
  A Go channel, after the runtime's \<^verbatim>\<open>hchan\<close>: its capacity, the buffered
  values, the closed flag, the number of goroutines parked in a receive and the values
  of the goroutines parked in a send. \<^verbatim>\<open>make(chan T)\<close> has capacity 0.
\<close>

record 'a hchan =
  dataqsiz :: nat
  buf :: "'a list"
  closed :: bool
  recvq :: nat
  sendq :: "'a list"

definition makechan :: "nat \<Rightarrow> 'a hchan" where
  "makechan n = \<lparr> dataqsiz = n, buf = [], closed = False, recvq = 0, sendq = [] \<rparr>"

text \<open>
  \<^verbatim>\<open>ch <- v\<close>: panics on a closed channel; hands the value to a parked receiver;
  else stores it when the buffer has room; else parks the sender.
\<close>

definition chansend :: "'a hchan \<Rightarrow> 'a \<Rightarrow> 'a hchan outcome" where
  "chansend c v =
     (if closed c then Panics SendOnClosedChannel
      else if 0 < recvq c then Returns (c\<lparr>recvq := recvq c - 1\<rparr>)
      else if length (buf c) < dataqsiz c then Returns (c\<lparr>buf := buf c @ [v]\<rparr>)
      else Blocks (c\<lparr>sendq := sendq c @ [v]\<rparr>))"

text \<open>
  \<^verbatim>\<open>close(ch)\<close>: panics on a closed channel; else marks it closed and releases
  every parked goroutine. The released receivers get the zero value; the released
  senders (returned second) panic with a send on a closed channel.
\<close>

definition closechan :: "'a hchan \<Rightarrow> panic + ('a hchan \<times> 'a list)" where
  "closechan c =
     (if closed c then Inl CloseOfClosedChannel
      else Inr (c\<lparr>closed := True, recvq := 0, sendq := []\<rparr>, sendq c))"

text \<open>
  \<^verbatim>\<open><-ch\<close> by the consumer: takes the value of a parked sender (through the
  buffer when there is one), else a buffered value, else the zero value of a closed
  channel, else parks the receiver. A receive never panics.
\<close>

datatype 'a received = Value 'a | ZeroValue | ReceiverParked

definition chanrecv :: "'a hchan \<Rightarrow> 'a hchan \<times> 'a received" where
  "chanrecv c =
     (case sendq c of
        v # vs \<Rightarrow>
          (case buf c of
             [] \<Rightarrow> (c\<lparr>sendq := vs\<rparr>, Value v)
           | b # bs \<Rightarrow> (c\<lparr>buf := bs @ [v], sendq := vs\<rparr>, Value b))
      | [] \<Rightarrow>
          (case buf c of
             b # bs \<Rightarrow> (c\<lparr>buf := bs\<rparr>, Value b)
           | [] \<Rightarrow>
               if closed c then (c, ZeroValue)
               else (c\<lparr>recvq := recvq c + 1\<rparr>, ReceiverParked)))"

section \<open>Watches and informer factories\<close>

text \<open>
  The three informer factories of \<^verbatim>\<open>manageDhNamespace\<close>, each with its resync
  interval and the namespace it is restricted to.
\<close>

datatype informerFactory =
    DynamicSharedInformerFactory Duration string
  | KubeSharedInformerFactory Duration string
  | RouteSharedInformerFactory Duration string

fun defaultResync :: "informerFactory \<Rightarrow> Duration" where
  "defaultResync (DynamicSharedInformerFactory d n) = d"
| "defaultResync (KubeSharedInformerFactory d n) = d"
| "defaultResync (RouteSharedInformerFactory d n) = d"

fun factoryNamespace :: "informerFactory \<Rightarrow> string" where
  "factoryNamespace (DynamicSharedInformerFactory d n) = n"
| "factoryNamespace (KubeSharedInformerFactory d n) = n"
| "factoryNamespace (RouteSharedInformerFactory d n) = n"

text \<open>
  The resource an informer lists and watches: \<open>DataHubGvr\<close> is the result of
  \<^verbatim>\<open>MkDataHubGvr()\<close>, the others are the typed informers
  \<^verbatim>\<open>Core().V1().Services()\<close>, \<^verbatim>\<open>Core().V1().Secrets()\<close> and
  \<^verbatim>\<open>Route().V1().Routes()\<close>.
\<close>

datatype resource = DataHubGvr | CoreV1Services | CoreV1Secrets | RouteV1Routes

datatype source =
    Channel
  | Informer informerFactory resource

datatype handler = EnqueueRequestForObject

text \<open>
  The two predicates of the source: a label selector with \<^verbatim>\<open>MatchLabels\<close>, and
  the function comparing the object's name with a fixed name.
\<close>

datatype predicate =
    LabelSelectorPredicate "(string \<times> string) list"
  | NameEquals string

record clusterObject =
  objName :: string
  objLabels :: "(string \<times> string) list"

fun predicateAllows :: "predicate \<Rightarrow> clusterObject \<Rightarrow> bool" where
  "predicateAllows (LabelSelectorPredicate ls) ob =
     list_all (\<lambda>(k, v). map_of (objLabels ob) k = Some v) ls"
| "predicateAllows (NameEquals n) ob = (objName ob = n)"

datatype watchDescription = WatchDescription source handler "predicate list"

fun watchSource :: "watchDescription \<Rightarrow> source" where
  "watchSource (WatchDescription s h ps) = s"

fun watchPredicates :: "watchDescription \<Rightarrow> predicate list" where
  "watchPredicates (WatchDescription s h ps) = ps"

fun sourceNamespace :: "source \<Rightarrow> string option" where
  "sourceNamespace Channel = None"
| "sourceNamespace (Informer f r) = Some (factoryNamespace f)"

fun sourceResource :: "source \<Rightarrow> resource option" where
  "sourceResource Channel = None"
| "sourceResource (Informer f r) = Some r"

fun sourceResync :: "source \<Rightarrow> Duration option" where
  "sourceResync Channel = None"
| "sourceResync (Informer f r) = Some (defaultResync f)"

section \<open>The sub-controller\<close>

text \<open>
  The embedded \<^verbatim>\<open>controller.Controller\<close> made by \<^verbatim>\<open>controller.NewUnmanaged\<close>:
  its name, the watches registered on it before it is started, whether its work queue
  has been made and whether it is started. \<^verbatim>\<open>NewUnmanaged\<close> makes no queue and
  starts nothing.
\<close>

record unmanagedController =
  ctrlName :: string
  startWatches :: "watchDescription list"
  queueMade :: bool
  Started :: bool

text \<open>
  The struct \<^verbatim>\<open>dhController\<close>. A \<^verbatim>\<open>context.CancelFunc\<close> is named by the
  number of the context it cancels. Contexts are numbered in creation order; every
  context this code creates has its cancel function appended to \<open>cancels\<close>, so the next
  number is \<open>length (cancels c)\<close>. The manager handle \<^verbatim>\<open>mgr\<close> is opaque and left
  out.
\<close>

record dhController =
  Controller :: unmanagedController
  unstartedFactories :: "informerFactory list"
  cancels :: "nat list"
  chanReconcileObs :: "GenericEvent hchan"
  isStarted :: bool

text \<open>What the code does to the world outside the struct, in order.\<close>

datatype event =
    FactoryStart informerFactory nat
  | GoControllerStart nat
  | QueueMade
  | SourceStart source
  | CancelCalled nat
  | ChanClosed
  | SenderPanics GenericEvent
  | LogInfo string "(string \<times> string) list"
  | LogError error string
  | CallManageVsystemRoute SdiObserver SDIObserverSpecRoute string

text \<open>
  The results of the library calls made during construction, and the constant
  \<^verbatim>\<open>vsystemCaBundleSecretName\<close>, which is declared in another file of the package.
  \<open>Watch_err\<close> is the error \<^verbatim>\<open>Controller.Watch\<close> returns for a source, if any.
\<close>

record env =
  NewUnmanaged_err :: "error option"
  Watch_err :: "source \<Rightarrow> error option"
  kubernetes_NewForConfig_err :: "error option"
  csroute_NewForConfig_err :: "error option"
  dynamic_NewForConfig_err :: "error option"
  vsystemCaBundleSecretName :: string

fun strings_Join :: "string list \<Rightarrow> string \<Rightarrow> string" where
  "strings_Join [] sep = []"
| "strings_Join [x] sep = x"
| "strings_Join (x # y # ys) sep = x @ sep @ strings_Join (y # ys) sep"

text \<open>\<^verbatim>\<open>NewForConfigOrDie\<close> panics with the error of \<^verbatim>\<open>NewForConfig\<close>.\<close>

definition NewForConfigOrDie :: "error option \<Rightarrow> panic + unit" where
  "NewForConfigOrDie r = (case r of Some err \<Rightarrow> Inl (PanicError err) | None \<Rightarrow> Inr ())"

text \<open>
  \<^verbatim>\<open>c.Watch(src, handler, predicates...)\<close> on the embedded controller, not yet
  started: the watch is stored, unless the call fails.
\<close>

definition Watch :: "env \<Rightarrow> dhController \<Rightarrow> source \<Rightarrow> predicate list \<Rightarrow> error + dhController" where
  "Watch e c src ps =
     (case Watch_err e src of
        Some err \<Rightarrow> Inl err
      | None \<Rightarrow>
          Inr (c\<lparr>Controller := (Controller c)
                 \<lparr>startWatches := startWatches (Controller c)
                    @ [WatchDescription src EnqueueRequestForObject ps]\<rparr>\<rparr>))"

definition startFactories :: "dhController \<Rightarrow> nat \<Rightarrow> dhController \<times> event list" where
  "startFactories c chCancel =
     (if \<not> isStarted c then (c, [])
      else (c\<lparr>unstartedFactories := []\<rparr>,
            map (\<lambda>f. FactoryStart f chCancel) (unstartedFactories c)))"

definition ReconcileObs :: "dhController \<Rightarrow> SdiObserver \<Rightarrow> dhController outcome" where
  "ReconcileObs c obs =
     (case chansend (chanReconcileObs c) (GenericEvent obs) of
        Returns ch \<Rightarrow> Returns (c\<lparr>chanReconcileObs := ch\<rparr>)
      | Blocks ch \<Rightarrow> Blocks (c\<lparr>chanReconcileObs := ch\<rparr>)
      | Panics p \<Rightarrow> Panics p)"

definition vsystemLabels :: "(string \<times> string) list" where
  "vsystemLabels =
     [(''datahub.sap.com/app-component'', ''vsystem''),
      (''datahub.sap.com/app'', ''vsystem'')]"

text \<open>
  \<^verbatim>\<open>manageDhNamespace\<close> mutates the controller in place and returns an error or
  nil; the model returns the controller as it is left, the events and the error. The
  error of \<^verbatim>\<open>predicate.LabelSelectorPredicate\<close> is overwritten unread in the source.
\<close>

definition manageDhNamespace ::
  "env \<Rightarrow> dhController \<Rightarrow> nat \<Rightarrow> string \<Rightarrow> panic + (dhController \<times> event list \<times> error option)" where
  "manageDhNamespace e c ctx dhNamespace =
     (case kubernetes_NewForConfig_err e of
        Some err \<Rightarrow> Inr (c, [], Some err)
      | None \<Rightarrow>
     (case NewForConfigOrDie (csroute_NewForConfig_err e) of
        Inl p \<Rightarrow> Inl p
      | Inr routesClientSet \<Rightarrow>
     (case NewForConfigOrDie (dynamic_NewForConfig_err e) of
        Inl p \<Rightarrow> Inl p
      | Inr dhDynClient \<Rightarrow>
     (let logs = [LogInfo ''(*dhController).manageDhNamespace: setting up watches for DH instance''
                    [(''DH namespace'', dhNamespace)]];
          factory = DynamicSharedInformerFactory dhSyncTime dhNamespace;
          c1 = c\<lparr>unstartedFactories := unstartedFactories c @ [factory]\<rparr>
      in case Watch e c1 (Informer factory DataHubGvr) [] of
        Inl err \<Rightarrow> Inr (c1, logs, Some err)
      | Inr c2 \<Rightarrow>
     (let kubeInformerFactory = KubeSharedInformerFactory coreSyncTime dhNamespace;
          c3 = c2\<lparr>unstartedFactories := unstartedFactories c2 @ [kubeInformerFactory]\<rparr>;
          lsPred = LabelSelectorPredicate vsystemLabels
      in case Watch e c3 (Informer kubeInformerFactory CoreV1Services) [lsPred] of
        Inl err \<Rightarrow> Inr (c3, logs, Some err)
      | Inr c4 \<Rightarrow>
     (case Watch e c4 (Informer kubeInformerFactory CoreV1Secrets)
             [NameEquals (vsystemCaBundleSecretName e)] of
        Inl err \<Rightarrow> Inr (c4, logs, Some err)
      | Inr c5 \<Rightarrow>
     (let routeInformerFactory = RouteSharedInformerFactory routeSyncTime dhNamespace;
          c6 = c5\<lparr>unstartedFactories := unstartedFactories c5 @ [routeInformerFactory]\<rparr>
      in case Watch e c6 (Informer routeInformerFactory RouteV1Routes) [] of
        Inl err \<Rightarrow> Inr (c6, logs, Some err)
      | Inr c7 \<Rightarrow>
     (case startFactories c7 ctx of
        (c8, evs) \<Rightarrow> Inr (c8, logs @ evs, None)))))))))"

text \<open>
  \<^verbatim>\<open>NewManagedDhController\<close>. The client, the scheme, the manager and the options
  are opaque handles stored in the reconciler and left out; the result is a panic, or
  the events with either the error or the controller.
\<close>

definition NewManagedDhController ::
  "env \<Rightarrow> NamespacedName \<Rightarrow> string \<Rightarrow> panic + (event list \<times> (error + dhController))" where
  "NewManagedDhController e nmName dhNamespace =
     (let name = strings_Join [''ManagedObs'', nnNamespace nmName, nnName nmName] ''-''
      in case NewUnmanaged_err e of
        Some err \<Rightarrow> Inr ([], Inl err)
      | None \<Rightarrow>
     (let ctrl = \<lparr> Controller = \<lparr> ctrlName = name, startWatches = [],
                                     queueMade = False, Started = False \<rparr>,
                    unstartedFactories = [], cancels = [],
                    chanReconcileObs = makechan 0, isStarted = False \<rparr>;
          obsContext = length (cancels ctrl)
      in case Watch e ctrl Channel [] of
        Inl err \<Rightarrow> Inr ([CancelCalled obsContext], Inl err)
      | Inr ctrl1 \<Rightarrow>
     (let ctrl2 = ctrl1\<lparr>cancels := cancels ctrl1 @ [obsContext]\<rparr>
      in case manageDhNamespace e ctrl2 obsContext dhNamespace of
        Inl p \<Rightarrow> Inl p
      | Inr (ctrl3, evs, Some err) \<Rightarrow> Inr (evs @ [CancelCalled obsContext], Inl err)
      | Inr (ctrl3, evs, None) \<Rightarrow> Inr (evs, Inr ctrl3))))"

text \<open>
  \<^verbatim>\<open>Start\<close>: the embedded controller is launched in a goroutine of its own, then
  the factories are started. The returned error is the first component.
\<close>

definition Start :: "dhController \<Rightarrow> error option \<times> dhController \<times> event list" where
  "Start c =
     (let ctx' = length (cancels c);
          c1 = c\<lparr>isStarted := True\<rparr>
      in case startFactories c1 ctx' of
        (c2, evs) \<Rightarrow>
          (None, c2\<lparr>cancels := cancels c2 @ [ctx']\<rparr>, GoControllerStart ctx' # evs))"

text \<open>
  The body of the goroutine of \<^verbatim>\<open>Start\<close>, once \<^verbatim>\<open>c.Controller.Start\<close> has
  returned with \<open>r\<close>.
\<close>

definition Start_goroutine :: "error option \<Rightarrow> event list" where
  "Start_goroutine r =
     (case r of
        Some err \<Rightarrow> [LogError err ''(*dhController).manageDhs: controller terminated'']
      | None \<Rightarrow> [])"

text \<open>
  What \<^verbatim>\<open>c.Controller.Start\<close> of the library does when the goroutine runs it, up
  to the point where the controller serves: a controller that is already started
  returns an error at once; otherwise the work queue is made, every registered watch is
  started on it, the list of watches is emptied and the controller is started.
\<close>

definition Controller_Start :: "unmanagedController \<Rightarrow> (error + unmanagedController) \<times> event list" where
  "Controller_Start uc =
     (if Started uc
      then (Inl (PlainError ''controller was started more than once''), [])
      else (Inr (uc\<lparr>startWatches := [], queueMade := True, Started := True\<rparr>),
            QueueMade # map (\<lambda>w. SourceStart (watchSource w)) (startWatches uc)))"

text \<open>
  \<^verbatim>\<open>Stop\<close>: closes the channel, which makes every sender parked on it panic, then
  calls every cancel function in order.
\<close>

definition Stop :: "dhController \<Rightarrow> panic + (dhController \<times> event list)" where
  "Stop c =
     (case closechan (chanReconcileObs c) of
        Inl p \<Rightarrow> Inl p
      | Inr (ch, parked) \<Rightarrow>
          Inr (c\<lparr>chanReconcileObs := ch\<rparr>,
               ChanClosed # map SenderPanics parked @ map CancelCalled (cancels c)))"

section \<open>The process: calls on one sub-controller, interleaved\<close>

text \<open>
  The calls that reach one sub-controller, in the order they take effect: the parent
  calls \<^verbatim>\<open>Start\<close>, \<^verbatim>\<open>Stop\<close> or \<^verbatim>\<open>ReconcileObs\<close>; a goroutine launched
  by \<^verbatim>\<open>Start\<close> gets to run \<^verbatim>\<open>c.Controller.Start\<close>; the channel source of the
  embedded controller receives from the channel; the serving embedded controller
  returns in its goroutine. A call of \<^verbatim>\<open>ReconcileObs\<close> that parks is in flight
  until a receive takes its value or a close makes it panic.
\<close>

datatype action =
    CallStart
  | CallStop
  | CallReconcileObs SdiObserver
  | ControllerRuns
  | SourceReceives
  | ControllerReturns "error option"

text \<open>
  An unrecovered panic in any goroutine ends the process: nothing happens after it.
  \<open>pending\<close> counts the goroutines that \<^verbatim>\<open>Start\<close> has launched and that have not
  yet run: the \<^verbatim>\<open>go\<close> statement waits for none of them.
\<close>

record process =
  ctrl :: dhController
  trace :: "event list"
  crashed :: "panic option"
  pending :: nat

definition step :: "action \<Rightarrow> process \<Rightarrow> process" where
  "step a s =
     (if crashed s \<noteq> None then s
      else case a of
        CallStart \<Rightarrow>
          (case Start (ctrl s) of
             (r, c, evs) \<Rightarrow> s\<lparr>ctrl := c, trace := trace s @ evs, pending := pending s + 1\<rparr>)
      | CallStop \<Rightarrow>
          (case Stop (ctrl s) of
             Inl p \<Rightarrow> s\<lparr>crashed := Some p\<rparr>
           | Inr (c, evs) \<Rightarrow>
               s\<lparr>ctrl := c, trace := trace s @ evs,
                 crashed := (if sendq (chanReconcileObs (ctrl s)) = [] then None
                             else Some SendOnClosedChannel)\<rparr>)
      | CallReconcileObs obs \<Rightarrow>
          (case ReconcileObs (ctrl s) obs of
             Returns c \<Rightarrow> s\<lparr>ctrl := c\<rparr>
           | Blocks c \<Rightarrow> s\<lparr>ctrl := c\<rparr>
           | Panics p \<Rightarrow> s\<lparr>crashed := Some p\<rparr>)
      | ControllerRuns \<Rightarrow>
          (if pending s = 0 then s
           else case Controller_Start (Controller (ctrl s)) of
             (Inl err, evs) \<Rightarrow>
               s\<lparr>trace := trace s @ evs @ Start_goroutine (Some err), pending := pending s - 1\<rparr>
           | (Inr uc, evs) \<Rightarrow>
               s\<lparr>ctrl := (ctrl s)\<lparr>Controller := uc\<rparr>, trace := trace s @ evs,
                 pending := pending s - 1\<rparr>)
      | SourceReceives \<Rightarrow>
          (case chanrecv (chanReconcileObs (ctrl s)) of
             (ch, r) \<Rightarrow> s\<lparr>ctrl := (ctrl s)\<lparr>chanReconcileObs := ch\<rparr>\<rparr>)
      | ControllerReturns r \<Rightarrow> s\<lparr>trace := trace s @ Start_goroutine r\<rparr>)"

fun run :: "action list \<Rightarrow> process \<Rightarrow> process" where
  "run [] s = s"
| "run (a # as) s = run as (step a s)"

definition launch :: "dhController \<Rightarrow> event list \<Rightarrow> process" where
  "launch c evs = \<lparr> ctrl = c, trace = evs, crashed = None, pending = 0 \<rparr>"

fun isFactoryStart :: "event \<Rightarrow> bool" where
  "isFactoryStart (FactoryStart f k) = True"
| "isFactoryStart e = False"

text \<open>
  \<open>afterControllerStart b es\<close>: in \<open>es\<close>, every start of a factory comes after the
  launch of the embedded controller (\<open>b\<close>: it was launched before \<open>es\<close>).
\<close>

fun afterControllerStart :: "bool \<Rightarrow> event list \<Rightarrow> bool" where
  "afterControllerStart b [] = True"
| "afterControllerStart b (GoControllerStart k # es) = afterControllerStart True es"
| "afterControllerStart b (FactoryStart f k # es) = (b \<and> afterControllerStart b es)"
| "afterControllerStart b (e # es) = afterControllerStart b es"

fun isCallReconcileObs :: "action \<Rightarrow> bool" where
  "isCallReconcileObs (CallReconcileObs obs) = True"
| "isCallReconcileObs a = False"

text \<open>
  \<open>afterQueueMade b es\<close>: in \<open>es\<close>, every start of a factory comes after the work
  queue of the embedded controller has been made (\<open>b\<close>: it was made before \<open>es\<close>).
\<close>

fun afterQueueMade :: "bool \<Rightarrow> event list \<Rightarrow> bool" where
  "afterQueueMade b [] = True"
| "afterQueueMade b (QueueMade # es) = afterQueueMade True es"
| "afterQueueMade b (FactoryStart f k # es) = (b \<and> afterQueueMade b es)"
| "afterQueueMade b (e # es) = afterQueueMade b es"

text \<open>
  The invariant of a process behind the results on factories: while the controller is
  not started the factories \<open>fs\<close> wait in \<open>unstartedFactories\<close>, none has been started,
  no goroutine is pending and no queue has been made; once it is started the list is
  empty, each factory has been started once, with the context of the first
  \<^verbatim>\<open>Start\<close>, and some factory was started before the queue was made.
\<close>

definition factoriesInv :: "informerFactory list \<Rightarrow> process \<Rightarrow> bool" where
  "factoriesInv fs s =
     ((if isStarted (ctrl s)
       then unstartedFactories (ctrl s) = [] \<and>
            filter isFactoryStart (trace s) = map (\<lambda>f. FactoryStart f 1) fs \<and>
            \<not> afterQueueMade False (trace s)
       else unstartedFactories (ctrl s) = fs \<and>
            filter isFactoryStart (trace s) = [] \<and> cancels (ctrl s) = [0] \<and>
            pending s = 0 \<and> QueueMade \<notin> set (trace s)) \<and>
      afterControllerStart False (trace s))"

section \<open>The reconciler\<close>

record Result =
  Requeue :: bool
  RequeueAfter :: Duration

text \<open>
  Of \<^verbatim>\<open>client.Client\<close> the reconciler uses \<^verbatim>\<open>Get\<close> for the observer only: it
  fills the object, or returns an error and leaves the object as it was.
\<close>

record Client =
  Get :: "NamespacedName \<Rightarrow> error + SdiObserver"

record managedDhReconciler =
  client :: Client
  namespacedName :: NamespacedName
  dhNamespace :: string

text \<open>
  \<^verbatim>\<open>Reconcile\<close>. The function \<^verbatim>\<open>manageVsystemRoute\<close> is declared in another
  file of the package and is a parameter here: it is given the client, the observer,
  its vsystem route and the namespace, and returns an error or nil. The named result
  \<^verbatim>\<open>rs\<close> is never assigned.
\<close>

definition Reconcile ::
  "(Client \<Rightarrow> SdiObserver \<Rightarrow> SDIObserverSpecRoute \<Rightarrow> string \<Rightarrow> error option)
     \<Rightarrow> managedDhReconciler \<Rightarrow> NamespacedName \<Rightarrow> (Result \<times> error option) \<times> event list" where
  "Reconcile manageVsystemRoute r req =
     (let rs = \<lparr> Requeue = False, RequeueAfter = 0 \<rparr>;
          logs = [LogInfo (''(*ManagedObsReconciler).Reconcile: running for ''
                    @ nnNamespace req @ ''/'' @ nnName req) []];
          got = Get (client r) (namespacedName r);
          obs = (case got of Inr ob \<Rightarrow> ob | Inl e \<Rightarrow> zeroSdiObserver);
          err = (case got of Inr ob \<Rightarrow> None | Inl e \<Rightarrow> Some e)
      in if (case err of Some e \<Rightarrow> \<not> IsNotFound e | None \<Rightarrow> False)
         then ((rs, err), logs)
         else
           (let err' = manageVsystemRoute (client r) obs (VsystemRoute (Spec obs)) (dhNamespace r)
            in ((rs, err'),
                logs @ [CallManageVsystemRoute obs (VsystemRoute (Spec obs)) (dhNamespace r)]
                  @ (case err' of
                       Some e \<Rightarrow> [LogError e ''failed to reconcile vsystem route'']
                     | None \<Rightarrow> []))))"

text \<open>
  What the work queue does with the result of \<^verbatim>\<open>Reconcile\<close>: the request is queued
  again on an error, on a positive \<^verbatim>\<open>RequeueAfter\<close> or on \<^verbatim>\<open>Requeue\<close>.
\<close>

definition requeued :: "Result \<times> error option \<Rightarrow> bool" where
  "requeued res = (snd res \<noteq> None \<or> 0 < RequeueAfter (fst res) \<or> Requeue (fst res))"

section \<open>A concrete sub-controller\<close>

definition okEnv :: env where
  "okEnv =
     \<lparr> NewUnmanaged_err = None, Watch_err = (\<lambda>src. None),
       kubernetes_NewForConfig_err = None, csroute_NewForConfig_err = None,
       dynamic_NewForConfig_err = None, vsystemCaBundleSecretName = ''ca-bundle'' \<rparr>"

definition exName :: NamespacedName where
  "exName = \<lparr> nnNamespace = ''sdi-observer'', nnName = ''sdi'' \<rparr>"

definition exWatches :: "watchDescription list" where
  "exWatches =
     [WatchDescription Channel EnqueueRequestForObject [],
      WatchDescription (Informer (DynamicSharedInformerFactory 180000000000 ''sdi'') DataHubGvr)
        EnqueueRequestForObject [],
      WatchDescription (Informer (KubeSharedInformerFactory 600000000000 ''sdi'') CoreV1Services)
        EnqueueRequestForObject
        [LabelSelectorPredicate
           [(''datahub.sap.com/app-component'', ''vsystem''), (''datahub.sap.com/app'', ''vsystem'')]],
      WatchDescription (Informer (KubeSharedInformerFactory 600000000000 ''sdi'') CoreV1Secrets)
        EnqueueRequestForObject [NameEquals ''ca-bundle''],
      WatchDescription (Informer (RouteSharedInformerFactory 600000000000 ''sdi'') RouteV1Routes)
        EnqueueRequestForObject []]"

definition exFactories :: "informerFactory list" where
  "exFactories =
     [DynamicSharedInformerFactory 180000000000 ''sdi'',
      KubeSharedInformerFactory 600000000000 ''sdi'',
      RouteSharedInformerFactory 600000000000 ''sdi'']"

definition exChan :: "GenericEvent hchan" where
  "exChan = \<lparr> dataqsiz = 0, buf = [], closed = False, recvq = 0, sendq = [] \<rparr>"

definition exCtrl :: dhController where
  "exCtrl =
     \<lparr> Controller = \<lparr> ctrlName = ''ManagedObs-sdi-observer-sdi'', startWatches = exWatches,
                        queueMade = False, Started = False \<rparr>,
       unstartedFactories = exFactories, cancels = [0],
       chanReconcileObs = exChan, isStarted = False \<rparr>"

definition exLogs :: "event list" where
  "exLogs =
     [LogInfo ''(*dhController).manageDhNamespace: setting up watches for DH instance''
        [(''DH namespace'', ''sdi'')]]"

definition exNotFound :: error where
  "exNotFound =
     StatusError StatusReasonNotFound ''sdiobservers.di.sap-cop.redhat.com sdi not found''"

definition exReconciler :: managedDhReconciler where
  "exReconciler =
     \<lparr> client = \<lparr> Get = (\<lambda>n. Inl exNotFound) \<rparr>,
       namespacedName = exName, dhNamespace = ''sdi'' \<rparr>"

text \<open>The same reconciler when the observer exists, and a route management that fails
  on an observer that has no name.\<close>

definition exObserver :: SdiObserver where
  "exObserver = zeroSdiObserver\<lparr>Name := ''sdi'', Namespace := ''sdi-observer''\<rparr>"

definition exReconcilerFound :: managedDhReconciler where
  "exReconcilerFound =
     \<lparr> client = \<lparr> Get = (\<lambda>n. Inr exObserver) \<rparr>,
       namespacedName = exName, dhNamespace = ''sdi'' \<rparr>"

definition exManageVsystemRoute ::
  "Client \<Rightarrow> SdiObserver \<Rightarrow> SDIObserverSpecRoute \<Rightarrow> string \<Rightarrow> error option" where
  "exManageVsystemRoute cl obs route ns =
     (if Name obs = [] then Some (PlainError ''route owner has no name'') else None)"

section \<open>Construction\<close>

lemma okEnv_secret [simp]: "vsystemCaBundleSecretName okEnv = ''ca-bundle''"
  by (simp add: okEnv_def)

lemma NewManagedDhController_example:
  "NewManagedDhController okEnv exName ''sdi'' = Inr (exLogs, Inr exCtrl)"
  by (simp add: NewManagedDhController_def manageDhNamespace_def Watch_def startFactories_def
      NewForConfigOrDie_def okEnv_def exName_def exCtrl_def exLogs_def exWatches_def
      exFactories_def exChan_def makechan_def vsystemLabels_def dhSyncTime_def coreSyncTime_def
      routeSyncTime_def Minute_def Second_def Let_def)

text \<open>
  A call of \<^verbatim>\<open>manageDhNamespace\<close> that returns nil has registered the four informer
  watches and queued the three factories, in this order.
\<close>

lemma manageDhNamespace_success:
  assumes "manageDhNamespace e c ctx ns = Inr (c', evs, None)" and "\<not> isStarted c"
  shows "c' = c\<lparr>Controller := (Controller c)\<lparr>startWatches := startWatches (Controller c) @
              [WatchDescription (Informer (DynamicSharedInformerFactory dhSyncTime ns) DataHubGvr)
                 EnqueueRequestForObject [],
               WatchDescription (Informer (KubeSharedInformerFactory coreSyncTime ns) CoreV1Services)
                 EnqueueRequestForObject [LabelSelectorPredicate vsystemLabels],
               WatchDescription (Informer (KubeSharedInformerFactory coreSyncTime ns) CoreV1Secrets)
                 EnqueueRequestForObject [NameEquals (vsystemCaBundleSecretName e)],
               WatchDescription (Informer (RouteSharedInformerFactory routeSyncTime ns) RouteV1Routes)
                 EnqueueRequestForObject []]\<rparr>,
              unstartedFactories := unstartedFactories c @
                [DynamicSharedInformerFactory dhSyncTime ns,
                 KubeSharedInformerFactory coreSyncTime ns,
                 RouteSharedInformerFactory routeSyncTime ns]\<rparr>"
    and "evs = [LogInfo ''(*dhController).manageDhNamespace: setting up watches for DH instance''
                  [(''DH namespace'', ns)]]"
  using assms
  by (auto simp: manageDhNamespace_def Watch_def NewForConfigOrDie_def startFactories_def Let_def
      split: option.splits sum.splits prod.splits)

text \<open>The controller that a successful construction returns, field by field.\<close>

lemma NewManagedDhController_success:
  assumes "NewManagedDhController e nm ns = Inr (evs, Inr c)"
  shows "c = \<lparr> Controller =
               \<lparr> ctrlName = strings_Join [''ManagedObs'', nnNamespace nm, nnName nm] ''-'',
                 startWatches =
                   [WatchDescription Channel EnqueueRequestForObject [],
                    WatchDescription (Informer (DynamicSharedInformerFactory dhSyncTime ns) DataHubGvr)
                      EnqueueRequestForObject [],
                    WatchDescription (Informer (KubeSharedInformerFactory coreSyncTime ns) CoreV1Services)
                      EnqueueRequestForObject [LabelSelectorPredicate vsystemLabels],
                    WatchDescription (Informer (KubeSharedInformerFactory coreSyncTime ns) CoreV1Secrets)
                      EnqueueRequestForObject [NameEquals (vsystemCaBundleSecretName e)],
                    WatchDescription (Informer (RouteSharedInformerFactory routeSyncTime ns) RouteV1Routes)
                      EnqueueRequestForObject []],
                 queueMade = False, Started = False \<rparr>,
             unstartedFactories =
               [DynamicSharedInformerFactory dhSyncTime ns,
                KubeSharedInformerFactory coreSyncTime ns,
                RouteSharedInformerFactory routeSyncTime ns],
             cancels = [0], chanReconcileObs = makechan 0, isStarted = False \<rparr>"
    and "evs = [LogInfo ''(*dhController).manageDhNamespace: setting up watches for DH instance''
                  [(''DH namespace'', ns)]]"
proof -
  from assms obtain c1 where
    w: "Watch e \<lparr> Controller =
                    \<lparr> ctrlName = strings_Join [''ManagedObs'', nnNamespace nm, nnName nm] ''-'',
                      startWatches = [], queueMade = False, Started = False \<rparr>,
                  unstartedFactories = [], cancels = [],
                  chanReconcileObs = makechan 0, isStarted = False \<rparr> Channel [] = Inr c1"
    and m: "manageDhNamespace e (c1\<lparr>cancels := cancels c1 @ [0]\<rparr>) 0 ns = Inr (c, evs, None)"
    by (auto simp: NewManagedDhController_def Let_def split: option.splits sum.splits prod.splits)
  from w have c1:
    "c1 = \<lparr> Controller =
              \<lparr> ctrlName = strings_Join [''ManagedObs'', nnNamespace nm, nnName nm] ''-'',
                startWatches = [WatchDescription Channel EnqueueRequestForObject []],
                queueMade = False, Started = False \<rparr>,
            unstartedFactories = [], cancels = [],
            chanReconcileObs = makechan 0, isStarted = False \<rparr>"
    by (auto simp: Watch_def split: option.splits)
  show "c = \<lparr> Controller =
               \<lparr> ctrlName = strings_Join [''ManagedObs'', nnNamespace nm, nnName nm] ''-'',
                 startWatches =
                   [WatchDescription Channel EnqueueRequestForObject [],
                    WatchDescription (Informer (DynamicSharedInformerFactory dhSyncTime ns) DataHubGvr)
                      EnqueueRequestForObject [],
                    WatchDescription (Informer (KubeSharedInformerFactory coreSyncTime ns) CoreV1Services)
                      EnqueueRequestForObject [LabelSelectorPredicate vsystemLabels],
                    WatchDescription (Informer (KubeSharedInformerFactory coreSyncTime ns) CoreV1Secrets)
                      EnqueueRequestForObject [NameEquals (vsystemCaBundleSecretName e)],
                    WatchDescription (Informer (RouteSharedInformerFactory routeSyncTime ns) RouteV1Routes)
                      EnqueueRequestForObject []],
                 queueMade = False, Started = False \<rparr>,
             unstartedFactories =
               [DynamicSharedInformerFactory dhSyncTime ns,
                KubeSharedInformerFactory coreSyncTime ns,
                RouteSharedInformerFactory routeSyncTime ns],
             cancels = [0], chanReconcileObs = makechan 0, isStarted = False \<rparr>"
    using manageDhNamespace_success(1) [OF m] by (simp add: c1)
  show "evs = [LogInfo ''(*dhController).manageDhNamespace: setting up watches for DH instance''
                  [(''DH namespace'', ns)]]"
    using manageDhNamespace_success(2) [OF m] by (simp add: c1)
qed

text \<open>
  Claim C5. A successful construction has registered, on the embedded controller, the
  watch on the notification channel and then exactly four informer watches, every one
  of them restricted to the target namespace: the DataHub resource with no filter, the
  Services filtered by the label selector, the Secrets filtered by a name equal to the
  name of the CA bundle secret, and the Routes with no filter. No other watch is
  registered in the target namespace.
\<close>

theorem construction_registers_watches:
  assumes "NewManagedDhController e nmName ns = Inr (evs, Inr c)"
  shows "startWatches (Controller c) =
           [WatchDescription Channel EnqueueRequestForObject [],
            WatchDescription (Informer (DynamicSharedInformerFactory dhSyncTime ns) DataHubGvr)
              EnqueueRequestForObject [],
            WatchDescription (Informer (KubeSharedInformerFactory coreSyncTime ns) CoreV1Services)
              EnqueueRequestForObject [LabelSelectorPredicate vsystemLabels],
            WatchDescription (Informer (KubeSharedInformerFactory coreSyncTime ns) CoreV1Secrets)
              EnqueueRequestForObject [NameEquals (vsystemCaBundleSecretName e)],
            WatchDescription (Informer (RouteSharedInformerFactory routeSyncTime ns) RouteV1Routes)
              EnqueueRequestForObject []]
       \<and> map (\<lambda>w. (sourceResource (watchSource w), watchPredicates w))
            (filter (\<lambda>w. sourceNamespace (watchSource w) = Some ns)
               (startWatches (Controller c))) =
           [(Some DataHubGvr, []),
            (Some CoreV1Services, [LabelSelectorPredicate vsystemLabels]),
            (Some CoreV1Secrets, [NameEquals (vsystemCaBundleSecretName e)]),
            (Some RouteV1Routes, [])]
       \<and> filter (\<lambda>w. sourceNamespace (watchSource w) \<noteq> Some ns)
            (startWatches (Controller c)) =
           [WatchDescription Channel EnqueueRequestForObject []]
       \<and> predicateAllows (NameEquals (vsystemCaBundleSecretName e)) ob =
           (objName ob = vsystemCaBundleSecretName e)
       \<and> predicateAllows (LabelSelectorPredicate vsystemLabels) ob =
           (map_of (objLabels ob) ''datahub.sap.com/app-component'' = Some ''vsystem'' \<and>
            map_of (objLabels ob) ''datahub.sap.com/app'' = Some ''vsystem'')"
  by (simp add: NewManagedDhController_success(1) [OF assms] vsystemLabels_def)

theorem construction_registers_watches_witness:
  "NewManagedDhController okEnv exName ''sdi'' = Inr (exLogs, Inr exCtrl)
   \<and> startWatches (Controller exCtrl) = exWatches
   \<and> map (\<lambda>w. (sourceResource (watchSource w), watchPredicates w))
        (filter (\<lambda>w. sourceNamespace (watchSource w) = Some ''sdi'') (startWatches (Controller exCtrl))) =
       [(Some DataHubGvr, []),
        (Some CoreV1Services, [LabelSelectorPredicate vsystemLabels]),
        (Some CoreV1Secrets, [NameEquals ''ca-bundle'']),
        (Some RouteV1Routes, [])]"
  using construction_registers_watches [OF NewManagedDhController_example]
  by (simp add: NewManagedDhController_example exCtrl_def exWatches_def vsystemLabels_def
      dhSyncTime_def coreSyncTime_def routeSyncTime_def Minute_def Second_def)

text \<open>
  Claim C7, at a failing input. The kubernetes client is built with
  \<^verbatim>\<open>NewForConfig\<close> and its error is returned; the route client and the dynamic
  client are built with \<^verbatim>\<open>NewForConfigOrDie\<close>. When the route client cannot be
  built, the construction does not return an error: it panics.
\<close>

theorem construction_panics_on_route_client_failure:
  "NewManagedDhController
     (okEnv\<lparr>csroute_NewForConfig_err := Some (PlainError ''invalid configuration'')\<rparr>)
     exName ''sdi'' = Inl (PanicError (PlainError ''invalid configuration''))"
  by (simp add: NewManagedDhController_def manageDhNamespace_def Watch_def NewForConfigOrDie_def
      okEnv_def Let_def)

text \<open>
  The construction panics exactly when everything before the two
  \<^verbatim>\<open>NewForConfigOrDie\<close> calls went well and one of them fails; every other failure
  is returned as an error.
\<close>

lemma construction_panics_iff:
  "(\<exists>p. NewManagedDhController e nm ns = Inl p) =
     (NewUnmanaged_err e = None \<and> Watch_err e Channel = None \<and>
      kubernetes_NewForConfig_err e = None \<and>
      (csroute_NewForConfig_err e \<noteq> None \<or> dynamic_NewForConfig_err e \<noteq> None))"
  by (auto simp: NewManagedDhController_def manageDhNamespace_def Watch_def NewForConfigOrDie_def
      startFactories_def Let_def split: option.splits sum.splits prod.splits)

section \<open>Resync intervals\<close>

lemma sync_values:
  "dhSyncTime = 180000000000" "coreSyncTime = 600000000000" "routeSyncTime = 600000000000"
  by (simp_all add: dhSyncTime_def coreSyncTime_def routeSyncTime_def Minute_def Second_def)

text \<open>
  Claim C8, as stated, fails: the watches of a constructed sub-controller do not have
  pairwise distinct resync intervals. The Services and the Secrets share one factory,
  and the Routes factory has the same interval of ten minutes.
\<close>

theorem resync_not_distinct_counterexample:
  "NewManagedDhController okEnv exName ''sdi'' = Inr (exLogs, Inr exCtrl)
   \<and> map (sourceResync \<circ> watchSource) (startWatches (Controller exCtrl)) =
       [None, Some 180000000000, Some 600000000000, Some 600000000000, Some 600000000000]
   \<and> \<not> distinct (map (sourceResync \<circ> watchSource) (startWatches (Controller exCtrl)))
   \<and> coreSyncTime = routeSyncTime"
  by (simp add: NewManagedDhController_example exCtrl_def exWatches_def coreSyncTime_def
      routeSyncTime_def)

text \<open>
  Claim C8, amended. The DataHub watch resyncs every three minutes, the Services, the
  Secrets and the Routes watches every ten minutes; the interval of the DataHub watch
  is strictly shorter than the interval of each of the other three. The watch on the
  notification channel has no resync interval.
\<close>

theorem resync_intervals:
  assumes "NewManagedDhController e nmName ns = Inr (evs, Inr c)"
  shows "map (\<lambda>w. (sourceResource (watchSource w), sourceResync (watchSource w)))
           (startWatches (Controller c)) =
           [(None, None),
            (Some DataHubGvr, Some dhSyncTime),
            (Some CoreV1Services, Some coreSyncTime),
            (Some CoreV1Secrets, Some coreSyncTime),
            (Some RouteV1Routes, Some routeSyncTime)]
       \<and> dhSyncTime = 3 * Minute \<and> coreSyncTime = 10 * Minute \<and> routeSyncTime = 10 * Minute
       \<and> dhSyncTime < coreSyncTime \<and> dhSyncTime < routeSyncTime"
  by (simp add: NewManagedDhController_success(1) [OF assms] dhSyncTime_def coreSyncTime_def
      routeSyncTime_def Minute_def Second_def)

theorem resync_intervals_witness:
  "NewManagedDhController okEnv exName ''sdi'' = Inr (exLogs, Inr exCtrl)
   \<and> map (\<lambda>w. (sourceResource (watchSource w), sourceResync (watchSource w)))
        (startWatches (Controller exCtrl)) =
       [(None, None),
        (Some DataHubGvr, Some 180000000000),
        (Some CoreV1Services, Some 600000000000),
        (Some CoreV1Secrets, Some 600000000000),
        (Some RouteV1Routes, Some 600000000000)]"
  using resync_intervals [OF NewManagedDhController_example]
  by (simp add: NewManagedDhController_example sync_values)

section \<open>Start\<close>

text \<open>
  Claim C10. \<^verbatim>\<open>Start\<close> returns nil in every state. It launches the embedded
  controller in a goroutine of its own; when that controller's run loop returns, with
  an error or without, the goroutine at most writes a log entry: the sub-controller is
  left as it is and nothing panics.
\<close>

theorem Start_returns_nil:
  "fst (Start c) = None
   \<and> hd (snd (snd (Start c))) = GoControllerStart (length (cancels c))
   \<and> Start_goroutine None = []
   \<and> Start_goroutine (Some err) =
       [LogError err ''(*dhController).manageDhs: controller terminated'']
   \<and> ctrl (step (ControllerReturns r) s) = ctrl s
   \<and> crashed (step (ControllerReturns r) s) = crashed s"
  by (simp add: Start_def Start_goroutine_def step_def Let_def split: prod.splits)

theorem Start_returns_nil_witness:
  "fst (Start exCtrl) = None
   \<and> hd (snd (snd (Start exCtrl))) = GoControllerStart 1
   \<and> trace (step (ControllerReturns (Some (PlainError ''stopped'')))
              (launch (fst (snd (Start exCtrl))) [])) =
       [LogError (PlainError ''stopped'') ''(*dhController).manageDhs: controller terminated'']"
  using Start_returns_nil [of exCtrl "PlainError ''stopped''"]
  by (simp add: exCtrl_def step_def launch_def Start_goroutine_def)

section \<open>Reconcile\<close>

text \<open>
  Claim C6, as stated, fails. A not-found error from \<^verbatim>\<open>Get\<close> is not the end of
  the reconcile: take a route management that fails on an observer without a name. With
  the observer not found, \<^verbatim>\<open>Reconcile\<close> hands it the zero-valued observer, returns
  its error and the request is queued again; with the observer found, the same
  reconciler returns nil and nothing is queued again. The requeue comes from the
  not-found.
\<close>

theorem Reconcile_not_found_requeues_counterexample:
  "Get (client exReconciler) (namespacedName exReconciler) = Inl exNotFound
   \<and> IsNotFound exNotFound
   \<and> fst (Reconcile exManageVsystemRoute exReconciler exName) =
       (\<lparr> Requeue = False, RequeueAfter = 0 \<rparr>, Some (PlainError ''route owner has no name''))
   \<and> requeued (fst (Reconcile exManageVsystemRoute exReconciler exName))
   \<and> Get (client exReconcilerFound) (namespacedName exReconcilerFound) = Inr exObserver
   \<and> fst (Reconcile exManageVsystemRoute exReconcilerFound exName) =
       (\<lparr> Requeue = False, RequeueAfter = 0 \<rparr>, None)
   \<and> \<not> requeued (fst (Reconcile exManageVsystemRoute exReconcilerFound exName))"
  by (simp add: Reconcile_def requeued_def exReconciler_def exReconcilerFound_def exNotFound_def
      exManageVsystemRoute_def exObserver_def zeroSdiObserver_def Let_def)

text \<open>
  Claim C6, amended. When \<^verbatim>\<open>Get\<close> fails with a not-found error,
  \<^verbatim>\<open>Reconcile\<close> does not return the error of \<^verbatim>\<open>Get\<close>: it returns the zero
  \<^verbatim>\<open>Result\<close> and exactly the error that \<^verbatim>\<open>manageVsystemRoute\<close> returns for
  the zero-valued observer. The request is queued again exactly when that call fails.
  The whole outcome is the one of a \<^verbatim>\<open>Get\<close> that succeeded with the zero-valued
  observer, so nothing of the not-found error reaches the caller.
\<close>

theorem Reconcile_not_found_returns_route_error:
  assumes "Get (client r) (namespacedName r) = Inl e" and "IsNotFound e"
  shows "fst (Reconcile manageVsystemRoute r req) =
           (\<lparr> Requeue = False, RequeueAfter = 0 \<rparr>,
            manageVsystemRoute (client r) zeroSdiObserver zeroRoute (dhNamespace r))
       \<and> requeued (fst (Reconcile manageVsystemRoute r req)) =
           (manageVsystemRoute (client r) zeroSdiObserver zeroRoute (dhNamespace r) \<noteq> None)
       \<and> Reconcile (\<lambda>cl. manageVsystemRoute (client r))
             (r\<lparr>client := \<lparr> Get = (\<lambda>n. Inr zeroSdiObserver) \<rparr>\<rparr>) req =
           Reconcile manageVsystemRoute r req"
  using assms
  by (simp add: Reconcile_def requeued_def Let_def zeroSdiObserver_def)

text \<open>The theorem at the example reconciler, with a failing and with a succeeding
  route management.\<close>

theorem Reconcile_not_found_returns_route_error_witness:
  "Get (client exReconciler) (namespacedName exReconciler) = Inl exNotFound
   \<and> IsNotFound exNotFound
   \<and> fst (Reconcile exManageVsystemRoute exReconciler exName) =
       (\<lparr> Requeue = False, RequeueAfter = 0 \<rparr>, Some (PlainError ''route owner has no name''))
   \<and> requeued (fst (Reconcile exManageVsystemRoute exReconciler exName))
   \<and> fst (Reconcile (\<lambda>cl obs route ns. None) exReconciler exName) =
       (\<lparr> Requeue = False, RequeueAfter = 0 \<rparr>, None)
   \<and> \<not> requeued (fst (Reconcile (\<lambda>cl obs route ns. None) exReconciler exName))"
proof -
  have g: "Get (client exReconciler) (namespacedName exReconciler) = Inl exNotFound"
    by (simp add: exReconciler_def)
  have n: "IsNotFound exNotFound"
    by (simp add: exNotFound_def)
  have m: "exManageVsystemRoute cl zeroSdiObserver route ns = Some (PlainError ''route owner has no name'')"
    for cl route ns
    by (simp add: exManageVsystemRoute_def zeroSdiObserver_def)
  show ?thesis
    using g n Reconcile_not_found_returns_route_error [OF g n, of exManageVsystemRoute exName]
      Reconcile_not_found_returns_route_error [OF g n, of "\<lambda>cl obs route ns. None" exName]
    by (simp add: m requeued_def)
qed

text \<open>
  Claim C9. When \<^verbatim>\<open>Get\<close> fails with a not-found error, \<^verbatim>\<open>Reconcile\<close> goes on:
  it calls \<^verbatim>\<open>manageVsystemRoute\<close> with the zero-valued observer and its (empty)
  vsystem route, and returns the zero \<^verbatim>\<open>Result\<close> with exactly the error of that
  call, which it also logs.
\<close>

theorem Reconcile_not_found_manages_route:
  assumes "Get (client r) (namespacedName r) = Inl e" and "IsNotFound e"
  shows "Reconcile manageVsystemRoute r req =
           ((\<lparr> Requeue = False, RequeueAfter = 0 \<rparr>,
             manageVsystemRoute (client r) zeroSdiObserver (VsystemRoute (Spec zeroSdiObserver))
               (dhNamespace r)),
            [LogInfo (''(*ManagedObsReconciler).Reconcile: running for ''
                        @ nnNamespace req @ ''/'' @ nnName req) [],
             CallManageVsystemRoute zeroSdiObserver (VsystemRoute (Spec zeroSdiObserver))
               (dhNamespace r)]
            @ (case manageVsystemRoute (client r) zeroSdiObserver
                      (VsystemRoute (Spec zeroSdiObserver)) (dhNamespace r) of
                 Some e' \<Rightarrow> [LogError e' ''failed to reconcile vsystem route'']
               | None \<Rightarrow> []))"
  using assms by (simp add: Reconcile_def Let_def)

theorem Reconcile_not_found_manages_route_witness:
  "Get (client exReconciler) (namespacedName exReconciler) = Inl exNotFound
   \<and> IsNotFound exNotFound
   \<and> Reconcile (\<lambda>cl obs route ns. if Name obs = [] then Some (PlainError ''no owner'') else None)
       exReconciler exName =
       ((\<lparr> Requeue = False, RequeueAfter = 0 \<rparr>, Some (PlainError ''no owner'')),
        [LogInfo ''(*ManagedObsReconciler).Reconcile: running for sdi-observer/sdi'' [],
         CallManageVsystemRoute zeroSdiObserver zeroRoute ''sdi'',
         LogError (PlainError ''no owner'') ''failed to reconcile vsystem route''])"
proof -
  have g: "Get (client exReconciler) (namespacedName exReconciler) = Inl exNotFound"
    by (simp add: exReconciler_def)
  have n: "IsNotFound exNotFound"
    by (simp add: exNotFound_def)
  show ?thesis
    using g n Reconcile_not_found_manages_route [OF g n,
        of "\<lambda>cl obs route ns. if Name obs = [] then Some (PlainError ''no owner'') else None" exName]
    by (simp add: zeroSdiObserver_def exReconciler_def exName_def)
qed

section \<open>Runs of the process\<close>

lemma run_append: "run (xs @ ys) s = run ys (run xs s)"
  by (induction xs arbitrary: s) simp_all

lemma step_crashed: "crashed s \<noteq> None \<Longrightarrow> step a s = s"
  by (simp add: step_def)

lemma run_crashed: "crashed s \<noteq> None \<Longrightarrow> run acts s = s"
  by (induction acts) (simp_all add: step_crashed)

subsection \<open>Factories are started once, before the work queue exists\<close>

lemma afterControllerStart_True: "afterControllerStart True es"
  by (induction True es rule: afterControllerStart.induct) simp_all

lemma afterControllerStart_launch:
  "afterControllerStart b xs \<Longrightarrow> afterControllerStart b (xs @ GoControllerStart k # ys)"
  by (induction b xs rule: afterControllerStart.induct) (simp_all add: afterControllerStart_True)

lemma afterControllerStart_others:
  "afterControllerStart b xs \<Longrightarrow> \<forall>e \<in> set ys. \<not> isFactoryStart e \<Longrightarrow>
     afterControllerStart b (xs @ ys)"
proof (induction b xs rule: afterControllerStart.induct)
  case (1 b)
  then show ?case
    by (induction b ys rule: afterControllerStart.induct) (simp_all add: afterControllerStart_True)
qed auto

lemma afterQueueMade_stays_False: "\<not> afterQueueMade b xs \<Longrightarrow> \<not> afterQueueMade b (xs @ ys)"
  by (induction b xs rule: afterQueueMade.induct) auto

lemma afterQueueMade_too_early:
  "QueueMade \<notin> set xs \<Longrightarrow> \<not> afterQueueMade False (xs @ FactoryStart f k # ys)"
proof (induction xs)
  case Nil
  then show ?case by simp
next
  case (Cons e xs)
  then show ?case by (cases e) simp_all
qed

lemma afterQueueMade_no_factory:
  "filter isFactoryStart xs = [] \<Longrightarrow> afterQueueMade b xs"
proof (induction xs arbitrary: b)
  case Nil
  then show ?case by simp
next
  case (Cons e xs)
  then show ?case by (cases e) (simp_all split: if_splits)
qed

lemma filter_FactoryStart_map [simp]:
  "filter isFactoryStart (map (\<lambda>f. FactoryStart f k) fs) = map (\<lambda>f. FactoryStart f k) fs"
  by (induction fs) simp_all

lemma filter_SenderPanics [simp]: "filter isFactoryStart (map SenderPanics xs) = []"
  by (induction xs) simp_all

lemma filter_CancelCalled [simp]: "filter isFactoryStart (map CancelCalled xs) = []"
  by (induction xs) simp_all

lemma filter_SourceStart [simp]:
  "filter isFactoryStart (map (\<lambda>w. SourceStart (watchSource w)) ws) = []"
  by (induction ws) simp_all

lemma filter_Start_goroutine [simp]: "filter isFactoryStart (Start_goroutine r) = []"
  by (cases r) (simp_all add: Start_goroutine_def)

lemma Controller_Start_no_factory [simp]:
  "filter isFactoryStart (snd (Controller_Start uc)) = []"
  by (simp add: Controller_Start_def)

text \<open>The events of the first \<^verbatim>\<open>Start\<close> come too early for the queue.\<close>

lemma first_Start_too_early:
  assumes "QueueMade \<notin> set xs" and "fs \<noteq> []"
  shows "\<not> afterQueueMade False (xs @ GoControllerStart k # map (\<lambda>f. FactoryStart f k) fs)"
proof -
  from assms(2) obtain f fs' where fs: "fs = f # fs'" by (cases fs) auto
  have "QueueMade \<notin> set (xs @ [GoControllerStart k])" using assms(1) by simp
  from afterQueueMade_too_early [OF this, of f k "map (\<lambda>f. FactoryStart f k) fs'"]
  show ?thesis by (simp add: fs)
qed

text \<open>Every action keeps the invariant, whatever the interleaving.\<close>

lemma step_inv:
  assumes "factoriesInv fs s" and "fs \<noteq> []"
  shows "factoriesInv fs (step a s)"
proof (cases "crashed s = None")
  case False
  then show ?thesis using assms by (simp add: step_def)
next
  case live: True
  show ?thesis
  proof (cases a)
    case CallStart
    show ?thesis
    proof (cases "isStarted (ctrl s)")
      case True
      then show ?thesis
        using assms live CallStart
        by (auto simp: factoriesInv_def step_def Start_def startFactories_def Let_def
            afterControllerStart_launch afterQueueMade_stays_False)
    next
      case False
      then show ?thesis
        using assms live CallStart
        by (auto simp: factoriesInv_def step_def Start_def startFactories_def Let_def
            afterControllerStart_launch first_Start_too_early)
    qed
  next
    case CallStop
    have "\<forall>e \<in> set (ChanClosed # map SenderPanics ps @ map CancelCalled cs). \<not> isFactoryStart e"
      for ps cs
      by auto
    then show ?thesis
      using assms live CallStop
      by (auto simp: factoriesInv_def step_def Stop_def closechan_def afterQueueMade_stays_False
          intro!: afterControllerStart_others split: if_splits sum.splits)
  next
    case (CallReconcileObs obs)
    then show ?thesis
      using assms live
      by (auto simp: factoriesInv_def step_def ReconcileObs_def chansend_def split: if_splits)
  next
    case ControllerRuns
    show ?thesis
    proof (cases "pending s = 0")
      case True
      then show ?thesis using assms live ControllerRuns by (simp add: step_def)
    next
      case False
      with assms(1) have started: "isStarted (ctrl s)"
        by (auto simp: factoriesInv_def split: if_splits)
      have nf: "\<forall>e \<in> set (QueueMade # map (\<lambda>w. SourceStart (watchSource w)) ws). \<not> isFactoryStart e"
        for ws
        by auto
      have ng: "\<forall>e \<in> set (Start_goroutine r). \<not> isFactoryStart e" for r
        by (cases r) (simp_all add: Start_goroutine_def)
      show ?thesis
        using assms live ControllerRuns False started nf ng
        by (auto simp: factoriesInv_def step_def Controller_Start_def afterQueueMade_stays_False
            intro!: afterControllerStart_others)
    qed
  next
    case SourceReceives
    then show ?thesis
      using assms live
      by (auto simp: factoriesInv_def step_def chanrecv_def split: if_splits list.splits prod.splits)
  next
    case (ControllerReturns r)
    have "\<forall>e \<in> set (Start_goroutine r). \<not> isFactoryStart e"
      by (cases r) (simp_all add: Start_goroutine_def)
    moreover have "QueueMade \<notin> set (Start_goroutine r)"
      by (cases r) (simp_all add: Start_goroutine_def)
    ultimately show ?thesis
      using assms live ControllerReturns
      by (auto simp: factoriesInv_def step_def afterQueueMade_stays_False
          intro!: afterControllerStart_others split: if_splits)
  qed
qed

lemma run_inv: "factoriesInv fs s \<Longrightarrow> fs \<noteq> [] \<Longrightarrow> factoriesInv fs (run acts s)"
  by (induction acts arbitrary: s) (simp_all add: step_inv)

lemma step_isStarted:
  "crashed s = None \<Longrightarrow> isStarted (ctrl (step a s)) = (isStarted (ctrl s) \<or> a = CallStart)"
  by (cases a)
    (auto simp: step_def Start_def startFactories_def Stop_def closechan_def ReconcileObs_def
      chansend_def chanrecv_def Controller_Start_def Let_def split: sum.splits list.splits)

lemma run_isStarted:
  "crashed (run acts s) = None \<Longrightarrow>
     isStarted (ctrl (run acts s)) = (isStarted (ctrl s) \<or> CallStart \<in> set acts)"
proof (induction acts arbitrary: s)
  case Nil
  then show ?case by simp
next
  case (Cons a acts)
  have live: "crashed s = None"
  proof (rule ccontr)
    assume "crashed s \<noteq> None"
    then have "run (a # acts) s = s" by (rule run_crashed)
    with Cons.prems \<open>crashed s \<noteq> None\<close> show False by simp
  qed
  from Cons.prems have "crashed (run acts (step a s)) = None" by simp
  then have "isStarted (ctrl (run acts (step a s))) =
      (isStarted (ctrl (step a s)) \<or> CallStart \<in> set acts)"
    by (rule Cons.IH)
  then show ?case
    by (auto simp: step_isStarted [OF live])
qed

lemma launch_inv:
  assumes "NewManagedDhController e nm ns = Inr (evs, Inr c)"
  shows "factoriesInv
           [DynamicSharedInformerFactory dhSyncTime ns,
            KubeSharedInformerFactory coreSyncTime ns,
            RouteSharedInformerFactory routeSyncTime ns]
           (launch c evs)"
  by (simp add: NewManagedDhController_success [OF assms] factoriesInv_def launch_def)

text \<open>
  What holds of the factories in every interleaving of calls on a constructed
  sub-controller: \<^verbatim>\<open>startFactories\<close> does nothing while \<^verbatim>\<open>isStarted\<close> is
  false; from the first \<^verbatim>\<open>Start\<close> on each of the three factories has been started
  exactly once and \<^verbatim>\<open>unstartedFactories\<close> is empty; every start of a factory
  comes after the \<^verbatim>\<open>go\<close> statement that launches the embedded controller. The
  order "after the work queue has been made" holds only as long as no factory has been
  started.
\<close>

lemma factories_in_every_run:
  assumes "NewManagedDhController e nmName ns = Inr (evs, Inr c)"
  shows "startFactories c k = (c, [])
       \<and> (\<not> isStarted c' \<longrightarrow> startFactories c' k = (c', []))
       \<and> filter isFactoryStart (trace (run acts (launch c evs))) =
           (if isStarted (ctrl (run acts (launch c evs)))
            then [FactoryStart (DynamicSharedInformerFactory dhSyncTime ns) 1,
                  FactoryStart (KubeSharedInformerFactory coreSyncTime ns) 1,
                  FactoryStart (RouteSharedInformerFactory routeSyncTime ns) 1]
            else [])
       \<and> unstartedFactories (ctrl (run acts (launch c evs))) =
           (if isStarted (ctrl (run acts (launch c evs))) then []
            else [DynamicSharedInformerFactory dhSyncTime ns,
                  KubeSharedInformerFactory coreSyncTime ns,
                  RouteSharedInformerFactory routeSyncTime ns])
       \<and> afterControllerStart False (trace (run acts (launch c evs)))
       \<and> afterQueueMade False (trace (run acts (launch c evs))) =
           (\<not> isStarted (ctrl (run acts (launch c evs))))
       \<and> (crashed (run acts (launch c evs)) = None \<longrightarrow>
            isStarted (ctrl (run acts (launch c evs))) = (CallStart \<in> set acts))"
proof -
  have inv: "factoriesInv
           [DynamicSharedInformerFactory dhSyncTime ns,
            KubeSharedInformerFactory coreSyncTime ns,
            RouteSharedInformerFactory routeSyncTime ns]
           (run acts (launch c evs))"
    by (rule run_inv [OF launch_inv [OF assms]]) simp
  have fresh: "\<not> isStarted c"
    by (simp add: NewManagedDhController_success(1) [OF assms])
  have started: "crashed (run acts (launch c evs)) = None \<Longrightarrow>
      isStarted (ctrl (run acts (launch c evs))) = (CallStart \<in> set acts)"
    using run_isStarted [of acts "launch c evs"] fresh by (simp add: launch_def)
  show ?thesis
    using inv fresh started
    by (auto simp: factoriesInv_def startFactories_def afterQueueMade_no_factory split: if_splits)
qed

text \<open>
  Claim C4, at a failing input. \<^verbatim>\<open>Start\<close> on the constructed sub-controller
  starts the three factories right after the \<^verbatim>\<open>go\<close> statement and waits for
  nothing: when it returns, the goroutine is still pending, the embedded controller is
  not started and has no work queue. The queue is made, and the watches are started on
  it, only when the goroutine runs, after the factories. The comment in
  \<^verbatim>\<open>startFactories\<close> asks for the opposite order.
\<close>

theorem Start_starts_factories_before_queue:
  "NewManagedDhController okEnv exName ''sdi'' = Inr (exLogs, Inr exCtrl)
   \<and> trace (run [CallStart] (launch exCtrl exLogs)) =
       exLogs @ [GoControllerStart 1,
                 FactoryStart (DynamicSharedInformerFactory 180000000000 ''sdi'') 1,
                 FactoryStart (KubeSharedInformerFactory 600000000000 ''sdi'') 1,
                 FactoryStart (RouteSharedInformerFactory 600000000000 ''sdi'') 1]
   \<and> \<not> queueMade (Controller (ctrl (run [CallStart] (launch exCtrl exLogs))))
   \<and> \<not> Started (Controller (ctrl (run [CallStart] (launch exCtrl exLogs))))
   \<and> pending (run [CallStart] (launch exCtrl exLogs)) = 1
   \<and> trace (run [CallStart, ControllerRuns] (launch exCtrl exLogs)) =
       exLogs @ [GoControllerStart 1,
                 FactoryStart (DynamicSharedInformerFactory 180000000000 ''sdi'') 1,
                 FactoryStart (KubeSharedInformerFactory 600000000000 ''sdi'') 1,
                 FactoryStart (RouteSharedInformerFactory 600000000000 ''sdi'') 1,
                 QueueMade] @ map (\<lambda>w. SourceStart (watchSource w)) exWatches
   \<and> queueMade (Controller (ctrl (run [CallStart, ControllerRuns] (launch exCtrl exLogs))))
   \<and> \<not> afterQueueMade False (trace (run [CallStart, ControllerRuns] (launch exCtrl exLogs)))"
  by (simp add: NewManagedDhController_example step_def launch_def Start_def startFactories_def
      Controller_Start_def exCtrl_def exFactories_def exLogs_def exWatches_def Let_def)

subsection \<open>Notifications block\<close>

text \<open>
  Without a \<^verbatim>\<open>Stop\<close> the process does not panic and the channel stays open,
  unbuffered and empty of buffered values.
\<close>

lemma step_unbuffered:
  assumes "crashed s = None" and "\<not> closed (chanReconcileObs (ctrl s))"
    and "dataqsiz (chanReconcileObs (ctrl s)) = 0" and "buf (chanReconcileObs (ctrl s)) = []"
    and "a \<noteq> CallStop"
  shows "crashed (step a s) = None \<and> \<not> closed (chanReconcileObs (ctrl (step a s)))
       \<and> dataqsiz (chanReconcileObs (ctrl (step a s))) = 0
       \<and> buf (chanReconcileObs (ctrl (step a s))) = []"
  using assms
  by (cases a)
    (auto simp: step_def Start_def startFactories_def ReconcileObs_def chansend_def chanrecv_def
      Controller_Start_def Let_def split: list.splits)

lemma run_unbuffered:
  assumes "crashed s = None" and "\<not> closed (chanReconcileObs (ctrl s))"
    and "dataqsiz (chanReconcileObs (ctrl s)) = 0" and "buf (chanReconcileObs (ctrl s)) = []"
    and "CallStop \<notin> set acts"
  shows "crashed (run acts s) = None \<and> \<not> closed (chanReconcileObs (ctrl (run acts s)))
       \<and> dataqsiz (chanReconcileObs (ctrl (run acts s))) = 0
       \<and> buf (chanReconcileObs (ctrl (run acts s))) = []"
  using assms
proof (induction acts arbitrary: s)
  case Nil
  then show ?case by simp
next
  case (Cons a acts)
  from Cons.prems have "a \<noteq> CallStop" by auto
  from step_unbuffered [OF Cons.prems(1-4) this] Cons.prems(5) Cons.IH [of "step a s"]
  show ?case by simp
qed

text \<open>
  While nothing receives and \<^verbatim>\<open>Stop\<close> is not called, the send queue only grows at
  its end: a parked call stays parked.
\<close>

lemma step_waiting:
  assumes "crashed s = None" and "\<not> closed (chanReconcileObs (ctrl s))"
    and "dataqsiz (chanReconcileObs (ctrl s)) = 0" and "recvq (chanReconcileObs (ctrl s)) = 0"
    and "a \<noteq> SourceReceives" and "a \<noteq> CallStop"
  shows "crashed (step a s) = None \<and> \<not> closed (chanReconcileObs (ctrl (step a s)))
       \<and> dataqsiz (chanReconcileObs (ctrl (step a s))) = 0
       \<and> recvq (chanReconcileObs (ctrl (step a s))) = 0
       \<and> (\<exists>ws. sendq (chanReconcileObs (ctrl (step a s))) = sendq (chanReconcileObs (ctrl s)) @ ws)"
  using assms
  by (cases a)
    (auto simp: step_def Start_def startFactories_def ReconcileObs_def chansend_def
      Controller_Start_def Let_def)

lemma run_waiting:
  assumes "crashed s = None" and "\<not> closed (chanReconcileObs (ctrl s))"
    and "dataqsiz (chanReconcileObs (ctrl s)) = 0" and "recvq (chanReconcileObs (ctrl s)) = 0"
    and "SourceReceives \<notin> set acts" and "CallStop \<notin> set acts"
  shows "crashed (run acts s) = None
       \<and> (\<exists>ws. sendq (chanReconcileObs (ctrl (run acts s))) = sendq (chanReconcileObs (ctrl s)) @ ws)"
  using assms
proof (induction acts arbitrary: s)
  case Nil
  then show ?case by simp
next
  case (Cons a acts)
  from Cons.prems have a: "a \<noteq> SourceReceives" "a \<noteq> CallStop" by auto
  from step_waiting [OF Cons.prems(1-4) a]
  obtain ws where st: "crashed (step a s) = None" "\<not> closed (chanReconcileObs (ctrl (step a s)))"
    "dataqsiz (chanReconcileObs (ctrl (step a s))) = 0"
    "recvq (chanReconcileObs (ctrl (step a s))) = 0"
    "sendq (chanReconcileObs (ctrl (step a s))) = sendq (chanReconcileObs (ctrl s)) @ ws"
    by blast
  from Cons.prems have rest: "SourceReceives \<notin> set acts" "CallStop \<notin> set acts" by auto
  from Cons.IH [OF st(1-4) rest] st(5) show ?case by auto
qed

text \<open>
  Claim C1, as stated, fails. The sub-controller is constructed and started and its
  embedded controller runs; at a moment where the channel source is not waiting in a
  receive, \<^verbatim>\<open>ReconcileObs\<close> parks the caller. Nothing is logged, nothing is
  buffered and nothing is dropped: the event waits in the send queue of the channel.
\<close>

theorem ReconcileObs_blocks_counterexample:
  "NewManagedDhController okEnv exName ''sdi'' = Inr (exLogs, Inr exCtrl)
   \<and> isStarted (ctrl (run [CallStart, ControllerRuns] (launch exCtrl exLogs)))
   \<and> Started (Controller (ctrl (run [CallStart, ControllerRuns] (launch exCtrl exLogs))))
   \<and> ReconcileObs (ctrl (run [CallStart, ControllerRuns] (launch exCtrl exLogs))) zeroSdiObserver =
       Blocks ((ctrl (run [CallStart, ControllerRuns] (launch exCtrl exLogs)))
                 \<lparr>chanReconcileObs := exChan\<lparr>sendq := [GenericEvent zeroSdiObserver]\<rparr>\<rparr>)
   \<and> trace (run [CallStart, ControllerRuns, CallReconcileObs zeroSdiObserver] (launch exCtrl exLogs)) =
       trace (run [CallStart, ControllerRuns] (launch exCtrl exLogs))
   \<and> chanReconcileObs
        (ctrl (run [CallStart, ControllerRuns, CallReconcileObs zeroSdiObserver] (launch exCtrl exLogs))) =
       exChan\<lparr>sendq := [GenericEvent zeroSdiObserver]\<rparr>
   \<and> crashed (run [CallStart, ControllerRuns, CallReconcileObs zeroSdiObserver] (launch exCtrl exLogs)) =
       None"
  by (simp add: NewManagedDhController_example ReconcileObs_def chansend_def exCtrl_def exChan_def
      step_def launch_def Start_def startFactories_def Controller_Start_def Let_def)

text \<open>
  Claim C1, amended. \<^verbatim>\<open>ReconcileObs\<close> is a blocking send on an unbuffered
  channel. Take a constructed sub-controller after any calls \<open>pre\<close> without a
  \<^verbatim>\<open>Stop\<close>, started or not. The process has not panicked. The call hands the event
  to a receiver that is already waiting and returns, or else parks with the event at the
  end of the send queue; it logs nothing. A parked call stays parked, its event kept in
  the queue and never moved to a buffer, through every continuation \<open>acts\<close> in which
  the channel source does not receive and \<^verbatim>\<open>Stop\<close> is not called. A receive
  completes it.
\<close>

theorem ReconcileObs_blocks_until_received:
  assumes "NewManagedDhController e nmName ns = Inr (evs, Inr c)"
    and "CallStop \<notin> set pre"
    and "SourceReceives \<notin> set acts" and "CallStop \<notin> set acts"
  shows "crashed (run pre (launch c evs)) = None
       \<and> ReconcileObs (ctrl (run pre (launch c evs))) obs =
           (if 0 < recvq (chanReconcileObs (ctrl (run pre (launch c evs))))
            then Returns ((ctrl (run pre (launch c evs)))
                   \<lparr>chanReconcileObs := (chanReconcileObs (ctrl (run pre (launch c evs))))
                      \<lparr>recvq := recvq (chanReconcileObs (ctrl (run pre (launch c evs)))) - 1\<rparr>\<rparr>)
            else Blocks ((ctrl (run pre (launch c evs)))
                   \<lparr>chanReconcileObs := (chanReconcileObs (ctrl (run pre (launch c evs))))
                      \<lparr>sendq := sendq (chanReconcileObs (ctrl (run pre (launch c evs))))
                                 @ [GenericEvent obs]\<rparr>\<rparr>))
       \<and> trace (run (pre @ [CallReconcileObs obs]) (launch c evs)) = trace (run pre (launch c evs))
       \<and> (recvq (chanReconcileObs (ctrl (run pre (launch c evs)))) = 0 \<longrightarrow>
            crashed (run (pre @ CallReconcileObs obs # acts) (launch c evs)) = None
            \<and> buf (chanReconcileObs (ctrl (run (pre @ CallReconcileObs obs # acts) (launch c evs)))) = []
            \<and> (\<exists>ws. sendq (chanReconcileObs
                        (ctrl (run (pre @ CallReconcileObs obs # acts) (launch c evs)))) =
                      sendq (chanReconcileObs (ctrl (run pre (launch c evs))))
                        @ GenericEvent obs # ws))
       \<and> (recvq (chanReconcileObs (ctrl (run pre (launch c evs)))) = 0
            \<and> sendq (chanReconcileObs (ctrl (run pre (launch c evs)))) = [] \<longrightarrow>
            sendq (chanReconcileObs
               (ctrl (run (pre @ [CallReconcileObs obs, SourceReceives]) (launch c evs)))) = [])"
proof -
  note c = NewManagedDhController_success(1) [OF assms(1)]
  define s where "s = run pre (launch c evs)"
  have init: "crashed (launch c evs) = None" "\<not> closed (chanReconcileObs (ctrl (launch c evs)))"
    "dataqsiz (chanReconcileObs (ctrl (launch c evs))) = 0"
    "buf (chanReconcileObs (ctrl (launch c evs))) = []"
    by (simp_all add: launch_def c makechan_def)
  from run_unbuffered [OF init assms(2)]
  have s: "crashed s = None" "\<not> closed (chanReconcileObs (ctrl s))"
    "dataqsiz (chanReconcileObs (ctrl s)) = 0" "buf (chanReconcileObs (ctrl s)) = []"
    by (simp_all add: s_def)
  have send: "ReconcileObs (ctrl s) obs =
      (if 0 < recvq (chanReconcileObs (ctrl s))
       then Returns ((ctrl s)\<lparr>chanReconcileObs := (chanReconcileObs (ctrl s))
                      \<lparr>recvq := recvq (chanReconcileObs (ctrl s)) - 1\<rparr>\<rparr>)
       else Blocks ((ctrl s)\<lparr>chanReconcileObs := (chanReconcileObs (ctrl s))
                      \<lparr>sendq := sendq (chanReconcileObs (ctrl s)) @ [GenericEvent obs]\<rparr>\<rparr>))"
    using s by (simp add: ReconcileObs_def chansend_def)
  define s1 where "s1 = step (CallReconcileObs obs) s"
  have tr: "trace s1 = trace s"
    using s by (simp add: s1_def step_def send)
  have parked: "crashed (run acts s1) = None
        \<and> buf (chanReconcileObs (ctrl (run acts s1))) = []
        \<and> (\<exists>ws. sendq (chanReconcileObs (ctrl (run acts s1))) =
              sendq (chanReconcileObs (ctrl s)) @ GenericEvent obs # ws)"
    if r0: "recvq (chanReconcileObs (ctrl s)) = 0"
  proof -
    have s1: "crashed s1 = None" "\<not> closed (chanReconcileObs (ctrl s1))"
      "dataqsiz (chanReconcileObs (ctrl s1)) = 0" "recvq (chanReconcileObs (ctrl s1)) = 0"
      "buf (chanReconcileObs (ctrl s1)) = []"
      "sendq (chanReconcileObs (ctrl s1)) = sendq (chanReconcileObs (ctrl s)) @ [GenericEvent obs]"
      using s r0 by (simp_all add: s1_def step_def send)
    from run_waiting [OF s1(1-4) assms(3,4)] s1(6)
    have a: "crashed (run acts s1) = None"
      and b: "\<exists>ws. sendq (chanReconcileObs (ctrl (run acts s1))) =
                sendq (chanReconcileObs (ctrl s)) @ GenericEvent obs # ws"
      by auto
    from run_unbuffered [OF s1(1-3) s1(5) assms(4)]
    have "buf (chanReconcileObs (ctrl (run acts s1))) = []" by simp
    with a b show ?thesis by blast
  qed
  have recv: "sendq (chanReconcileObs (ctrl (step SourceReceives s1))) = []"
    if "recvq (chanReconcileObs (ctrl s)) = 0" and "sendq (chanReconcileObs (ctrl s)) = []"
    using s that by (simp add: s1_def step_def send chanrecv_def)
  show ?thesis
    using s(1) send tr parked recv
    by (simp add: run_append s_def [symmetric] s1_def [symmetric])
qed

text \<open>The theorem at the constructed example, started and running, with a second
  notification behind the first.\<close>

theorem ReconcileObs_blocks_until_received_witness:
  "NewManagedDhController okEnv exName ''sdi'' = Inr (exLogs, Inr exCtrl)
   \<and> CallStop \<notin> set [CallStart, ControllerRuns]
   \<and> SourceReceives \<notin> set [CallReconcileObs exObserver]
   \<and> CallStop \<notin> set [CallReconcileObs exObserver]
   \<and> recvq (chanReconcileObs (ctrl (run [CallStart, ControllerRuns] (launch exCtrl exLogs)))) = 0
   \<and> ReconcileObs (ctrl (run [CallStart, ControllerRuns] (launch exCtrl exLogs))) zeroSdiObserver =
       Blocks ((ctrl (run [CallStart, ControllerRuns] (launch exCtrl exLogs)))
                 \<lparr>chanReconcileObs := exChan\<lparr>sendq := [GenericEvent zeroSdiObserver]\<rparr>\<rparr>)
   \<and> crashed (run ([CallStart, ControllerRuns] @ CallReconcileObs zeroSdiObserver
        # [CallReconcileObs exObserver]) (launch exCtrl exLogs)) = None
   \<and> (\<exists>ws. sendq (chanReconcileObs (ctrl (run ([CallStart, ControllerRuns]
        @ CallReconcileObs zeroSdiObserver # [CallReconcileObs exObserver]) (launch exCtrl exLogs)))) =
          GenericEvent zeroSdiObserver # ws)"
proof -
  have a: "CallStop \<notin> set [CallStart, ControllerRuns]" by simp
  have b: "SourceReceives \<notin> set [CallReconcileObs exObserver]" by simp
  have d: "CallStop \<notin> set [CallReconcileObs exObserver]" by simp
  have ch: "chanReconcileObs (ctrl (run [CallStart, ControllerRuns] (launch exCtrl exLogs))) = exChan"
    by (simp add: step_def launch_def Start_def startFactories_def Controller_Start_def
        exCtrl_def Let_def)
  have q: "recvq exChan = 0" "sendq exChan = []"
    by (simp_all add: exChan_def)
  show ?thesis
    using ReconcileObs_blocks_until_received [OF NewManagedDhController_example a b d,
        of zeroSdiObserver]
    by (simp add: NewManagedDhController_example ch q del: run.simps)
qed

subsection \<open>Stop closes the channel\<close>

lemma count_list_append: "count_list (xs @ ys) x = count_list xs x + count_list ys x"
  by (induction xs) simp_all

lemma count_ChanClosed_FactoryStart [simp]:
  "count_list (map (\<lambda>f. FactoryStart f k) fs) ChanClosed = 0"
  by (induction fs) simp_all

lemma count_ChanClosed_SenderPanics [simp]: "count_list (map SenderPanics vs) ChanClosed = 0"
  by (induction vs) simp_all

lemma count_ChanClosed_CancelCalled [simp]: "count_list (map CancelCalled ks) ChanClosed = 0"
  by (induction ks) simp_all

lemma count_ChanClosed_SourceStart [simp]:
  "count_list (map (\<lambda>w. SourceStart (watchSource w)) ws) ChanClosed = 0"
  by (induction ws) simp_all

lemma count_ChanClosed_goroutine [simp]: "count_list (Start_goroutine r) ChanClosed = 0"
  by (cases r) (simp_all add: Start_goroutine_def)

lemma Stop_open:
  "\<not> closed (chanReconcileObs c) \<Longrightarrow>
     Stop c = Inr (c\<lparr>chanReconcileObs := (chanReconcileObs c)\<lparr>closed := True, recvq := 0, sendq := []\<rparr>\<rparr>,
                   ChanClosed # map SenderPanics (sendq (chanReconcileObs c))
                     @ map CancelCalled (cancels c))"
  by (simp add: Stop_def closechan_def)

lemma Stop_closed: "closed (chanReconcileObs c) \<Longrightarrow> Stop c = Inl CloseOfClosedChannel"
  by (simp add: Stop_def closechan_def)

lemma step_closed_once:
  assumes "count_list (trace s) ChanClosed = (if closed (chanReconcileObs (ctrl s)) then 1 else 0)"
  shows "count_list (trace (step a s)) ChanClosed =
           (if closed (chanReconcileObs (ctrl (step a s))) then 1 else 0)"
proof (cases "crashed s = None")
  case False
  then show ?thesis using assms by (simp add: step_crashed)
next
  case True
  then show ?thesis
    using assms
    by (cases a)
      (auto simp: step_def Start_def startFactories_def Stop_def closechan_def ReconcileObs_def
        chansend_def chanrecv_def Controller_Start_def count_list_append Let_def
        split: list.splits if_splits)
qed

lemma run_closed_once:
  "count_list (trace s) ChanClosed = (if closed (chanReconcileObs (ctrl s)) then 1 else 0) \<Longrightarrow>
   count_list (trace (run acts s)) ChanClosed =
     (if closed (chanReconcileObs (ctrl (run acts s))) then 1 else 0)"
  by (induction acts arbitrary: s) (simp_all add: step_closed_once)

text \<open>
  Claim C2, as stated, fails. The first \<^verbatim>\<open>Stop\<close> on the constructed sub-controller
  closes the channel and calls the cancel function; the second \<^verbatim>\<open>Stop\<close> panics
  with a close of a closed channel.
\<close>

theorem Stop_twice_counterexample:
  "NewManagedDhController okEnv exName ''sdi'' = Inr (exLogs, Inr exCtrl)
   \<and> Stop exCtrl = Inr (exCtrl\<lparr>chanReconcileObs := exChan\<lparr>closed := True\<rparr>\<rparr>,
                        [ChanClosed, CancelCalled 0])
   \<and> Stop (exCtrl\<lparr>chanReconcileObs := exChan\<lparr>closed := True\<rparr>\<rparr>) = Inl CloseOfClosedChannel
   \<and> crashed (run [CallStop, CallStop] (launch exCtrl exLogs)) = Some CloseOfClosedChannel"
  by (simp add: NewManagedDhController_example Stop_def closechan_def exCtrl_def exChan_def
      step_def launch_def)

text \<open>
  Claim C2, amended. \<^verbatim>\<open>Stop\<close> is not idempotent. On a sub-controller whose
  channel is open, as after the construction, it returns: the channel is closed and
  every cancel function is called, in order. On a sub-controller whose channel is
  closed, as after any \<^verbatim>\<open>Stop\<close> that returned, it panics with a close of a closed
  channel before any cancel function is called. In every interleaving of calls the
  channel is closed at most once: the trace holds one close when the channel is closed
  and none when it is open.
\<close>

theorem Stop_closes_once:
  assumes "NewManagedDhController e nmName ns = Inr (evs, Inr c)"
  shows "Stop c = Inr (c\<lparr>chanReconcileObs := (chanReconcileObs c)\<lparr>closed := True\<rparr>\<rparr>,
                       [ChanClosed, CancelCalled 0])
       \<and> (\<not> closed (chanReconcileObs c1) \<longrightarrow>
            Stop c1 =
              Inr (c1\<lparr>chanReconcileObs :=
                        (chanReconcileObs c1)\<lparr>closed := True, recvq := 0, sendq := []\<rparr>\<rparr>,
                   ChanClosed # map SenderPanics (sendq (chanReconcileObs c1))
                     @ map CancelCalled (cancels c1)))
       \<and> (closed (chanReconcileObs c1) \<longrightarrow> Stop c1 = Inl CloseOfClosedChannel)
       \<and> (Stop c1 = Inr (c2, evs2) \<longrightarrow> Stop c2 = Inl CloseOfClosedChannel)
       \<and> count_list (trace (run acts (launch c evs))) ChanClosed =
           (if closed (chanReconcileObs (ctrl (run acts (launch c evs)))) then 1 else 0)"
proof -
  note c = NewManagedDhController_success [OF assms]
  have first: "Stop c = Inr (c\<lparr>chanReconcileObs := (chanReconcileObs c)\<lparr>closed := True\<rparr>\<rparr>,
                       [ChanClosed, CancelCalled 0])"
    by (simp add: c Stop_def closechan_def makechan_def)
  have second: "Stop c1 = Inr (c2, evs2) \<longrightarrow> Stop c2 = Inl CloseOfClosedChannel"
    by (auto simp: Stop_def closechan_def split: if_splits)
  have "count_list (trace (launch c evs)) ChanClosed =
      (if closed (chanReconcileObs (ctrl (launch c evs))) then 1 else 0)"
    by (simp add: c launch_def makechan_def)
  then have once: "count_list (trace (run acts (launch c evs))) ChanClosed =
           (if closed (chanReconcileObs (ctrl (run acts (launch c evs)))) then 1 else 0)"
    by (rule run_closed_once)
  show ?thesis
    using first second once Stop_open [of c1] Stop_closed [of c1] by blast
qed

text \<open>The theorem at the constructed example, stopped twice.\<close>

theorem Stop_closes_once_witness:
  "NewManagedDhController okEnv exName ''sdi'' = Inr (exLogs, Inr exCtrl)
   \<and> Stop exCtrl = Inr (exCtrl\<lparr>chanReconcileObs := exChan\<lparr>closed := True\<rparr>\<rparr>,
                        [ChanClosed, CancelCalled 0])
   \<and> Stop (exCtrl\<lparr>chanReconcileObs := exChan\<lparr>closed := True\<rparr>\<rparr>) = Inl CloseOfClosedChannel
   \<and> count_list (trace (run [CallStart, CallStop, CallStop] (launch exCtrl exLogs))) ChanClosed = 1"
proof -
  have cl: "closed (chanReconcileObs
      (ctrl (run [CallStart, CallStop, CallStop] (launch exCtrl exLogs))))"
    by (simp add: step_def launch_def Start_def startFactories_def Stop_def closechan_def
        exCtrl_def exChan_def Let_def)
  have ch: "chanReconcileObs exCtrl = exChan"
    by (simp add: exCtrl_def)
  show ?thesis
    using cl Stop_closes_once [OF NewManagedDhController_example,
        of exCtrl
        "exCtrl\<lparr>chanReconcileObs := exChan\<lparr>closed := True\<rparr>\<rparr>" "[ChanClosed, CancelCalled 0]"
        "[CallStart, CallStop, CallStop]"]
    by (simp add: NewManagedDhController_example ch)
qed

subsection \<open>Sends on the closed channel\<close>

lemma step_open:
  assumes "crashed s = None" and "\<not> closed (chanReconcileObs (ctrl s))" and "a \<noteq> CallStop"
  shows "crashed (step a s) = None \<and> \<not> closed (chanReconcileObs (ctrl (step a s)))"
  using assms
  by (cases a)
    (auto simp: step_def Start_def startFactories_def ReconcileObs_def chansend_def chanrecv_def
      Controller_Start_def Let_def split: list.splits)

lemma run_open:
  assumes "crashed s = None" and "\<not> closed (chanReconcileObs (ctrl s))" and "CallStop \<notin> set acts"
  shows "crashed (run acts s) = None \<and> \<not> closed (chanReconcileObs (ctrl (run acts s)))"
  using assms
proof (induction acts arbitrary: s)
  case Nil
  then show ?case by simp
next
  case (Cons a acts)
  from Cons.prems have "a \<noteq> CallStop" by auto
  from step_open [OF Cons.prems(1,2) this] Cons.prems(3) Cons.IH [of "step a s"]
  show ?case by simp
qed

lemma step_Stop_open:
  assumes "crashed s = None" and "\<not> closed (chanReconcileObs (ctrl s))"
  shows "crashed (step CallStop s) =
           (if sendq (chanReconcileObs (ctrl s)) = [] then None else Some SendOnClosedChannel)
       \<and> closed (chanReconcileObs (ctrl (step CallStop s)))
       \<and> sendq (chanReconcileObs (ctrl (step CallStop s))) = []"
  using assms by (simp add: step_def Stop_def closechan_def)

lemma step_ReconcileObs_closed:
  assumes "crashed s = None" and "closed (chanReconcileObs (ctrl s))"
  shows "crashed (step (CallReconcileObs obs) s) = Some SendOnClosedChannel"
  using assms by (simp add: step_def ReconcileObs_def chansend_def)

lemma step_no_notify:
  assumes "sendq (chanReconcileObs (ctrl s)) = []" and "crashed s \<noteq> Some SendOnClosedChannel"
    and "\<not> isCallReconcileObs a"
  shows "sendq (chanReconcileObs (ctrl (step a s))) = [] \<and>
         crashed (step a s) \<noteq> Some SendOnClosedChannel"
proof (cases "crashed s = None")
  case False
  then show ?thesis using assms by (simp add: step_crashed)
next
  case True
  then show ?thesis
    using assms
    by (cases a)
      (auto simp: step_def Start_def startFactories_def Stop_def closechan_def chanrecv_def
        Controller_Start_def Let_def split: list.splits if_splits)
qed

lemma run_no_notify:
  assumes "sendq (chanReconcileObs (ctrl s)) = []" and "crashed s \<noteq> Some SendOnClosedChannel"
    and "filter isCallReconcileObs acts = []"
  shows "crashed (run acts s) \<noteq> Some SendOnClosedChannel"
  using assms
proof (induction acts arbitrary: s)
  case Nil
  then show ?case by simp
next
  case (Cons a acts)
  from Cons.prems(3) have a: "\<not> isCallReconcileObs a" and rest: "filter isCallReconcileObs acts = []"
    by (auto split: if_splits)
  from step_no_notify [OF Cons.prems(1,2) a] Cons.IH [of "step a s"] rest
  show ?case by simp
qed

text \<open>
  Claim C3, as stated, fails. Two interleavings on the constructed sub-controller end in
  a send on the closed channel: \<^verbatim>\<open>ReconcileObs\<close> called after \<^verbatim>\<open>Stop\<close>, and
  \<^verbatim>\<open>Stop\<close> called while a \<^verbatim>\<open>ReconcileObs\<close> is in flight.
\<close>

theorem send_on_closed_counterexample:
  "NewManagedDhController okEnv exName ''sdi'' = Inr (exLogs, Inr exCtrl)
   \<and> crashed (run [CallStop, CallReconcileObs zeroSdiObserver] (launch exCtrl exLogs)) =
       Some SendOnClosedChannel
   \<and> crashed (run [CallReconcileObs zeroSdiObserver, CallStop] (launch exCtrl exLogs)) =
       Some SendOnClosedChannel"
  by (simp add: NewManagedDhController_example step_def launch_def Stop_def closechan_def
      ReconcileObs_def chansend_def exCtrl_def exChan_def)

text \<open>
  Claim C3, amended. The sub-controller does not order \<^verbatim>\<open>Stop\<close> after the calls
  of \<^verbatim>\<open>ReconcileObs\<close>. Before the first \<^verbatim>\<open>Stop\<close> no interleaving panics. A
  \<^verbatim>\<open>ReconcileObs\<close> called after \<^verbatim>\<open>Stop\<close>, and a \<^verbatim>\<open>Stop\<close> that finds a
  \<^verbatim>\<open>ReconcileObs\<close> in flight, end in a send on the closed channel. When
  \<^verbatim>\<open>Stop\<close> finds no call in flight and no \<^verbatim>\<open>ReconcileObs\<close> is called after
  it, no send on the closed channel happens.
\<close>

theorem send_on_closed_only_after_Stop:
  assumes "NewManagedDhController e nmName ns = Inr (evs, Inr c)"
    and "CallStop \<notin> set acts"
  shows "crashed (run acts (launch c evs)) = None
       \<and> crashed (run (acts @ [CallStop, CallReconcileObs obs]) (launch c evs)) =
           Some SendOnClosedChannel
       \<and> (sendq (chanReconcileObs (ctrl (run acts (launch c evs)))) \<noteq> [] \<longrightarrow>
            crashed (run (acts @ [CallStop]) (launch c evs)) = Some SendOnClosedChannel)
       \<and> (sendq (chanReconcileObs (ctrl (run acts (launch c evs)))) = [] \<and>
            filter isCallReconcileObs post = [] \<longrightarrow>
            crashed (run (acts @ CallStop # post) (launch c evs)) \<noteq> Some SendOnClosedChannel)"
proof -
  note c = NewManagedDhController_success(1) [OF assms(1)]
  define s where "s = run acts (launch c evs)"
  have "crashed (launch c evs) = None" "\<not> closed (chanReconcileObs (ctrl (launch c evs)))"
    by (simp_all add: launch_def c makechan_def)
  from run_open [OF this assms(2)]
  have s: "crashed s = None" "\<not> closed (chanReconcileObs (ctrl s))"
    by (simp_all add: s_def)
  note stop = step_Stop_open [OF s]
  have after: "crashed (run [CallStop, CallReconcileObs obs] s) = Some SendOnClosedChannel"
  proof (cases "sendq (chanReconcileObs (ctrl s)) = []")
    case True
    with stop have "crashed (step CallStop s) = None" by simp
    from step_ReconcileObs_closed [OF this] stop show ?thesis by simp
  next
    case False
    with stop have "crashed (step CallStop s) = Some SendOnClosedChannel" by simp
    then show ?thesis by (simp add: step_crashed)
  qed
  have inflight: "sendq (chanReconcileObs (ctrl s)) \<noteq> [] \<longrightarrow>
      crashed (run [CallStop] s) = Some SendOnClosedChannel"
    using stop by simp
  have ordered: "sendq (chanReconcileObs (ctrl s)) = [] \<and> filter isCallReconcileObs post = [] \<longrightarrow>
      crashed (run (CallStop # post) s) \<noteq> Some SendOnClosedChannel"
  proof (intro impI, elim conjE)
    assume e: "sendq (chanReconcileObs (ctrl s)) = []" and p: "filter isCallReconcileObs post = []"
    from stop e have "sendq (chanReconcileObs (ctrl (step CallStop s))) = []"
      "crashed (step CallStop s) \<noteq> Some SendOnClosedChannel"
      by simp_all
    from run_no_notify [OF this p] show "crashed (run (CallStop # post) s) \<noteq> Some SendOnClosedChannel"
      by simp
  qed
  show ?thesis
    using s(1) after inflight ordered by (simp add: run_append s_def)
qed

text \<open>The theorem at the constructed example, with one notification received before the stop.\<close>

theorem send_on_closed_only_after_Stop_witness:
  "NewManagedDhController okEnv exName ''sdi'' = Inr (exLogs, Inr exCtrl)
   \<and> CallStop \<notin> set [CallStart, CallReconcileObs zeroSdiObserver, SourceReceives]
   \<and> crashed (run [CallStart, CallReconcileObs zeroSdiObserver, SourceReceives]
        (launch exCtrl exLogs)) = None
   \<and> crashed (run ([CallStart, CallReconcileObs zeroSdiObserver, SourceReceives]
        @ [CallStop, CallReconcileObs zeroSdiObserver]) (launch exCtrl exLogs)) =
       Some SendOnClosedChannel
   \<and> crashed (run ([CallStart, CallReconcileObs zeroSdiObserver, SourceReceives]
        @ CallStop # [ControllerReturns None]) (launch exCtrl exLogs)) \<noteq>
       Some SendOnClosedChannel"
proof -
  have a: "CallStop \<notin> set [CallStart, CallReconcileObs zeroSdiObserver, SourceReceives]"
    by simp
  have e: "sendq (chanReconcileObs (ctrl (run [CallStart, CallReconcileObs zeroSdiObserver,
      SourceReceives] (launch exCtrl exLogs)))) = []"
    by (simp add: step_def launch_def Start_def startFactories_def ReconcileObs_def chansend_def
        chanrecv_def exCtrl_def exChan_def Let_def)
  show ?thesis
    using e send_on_closed_only_after_Stop [OF NewManagedDhController_example a,
        of zeroSdiObserver "[ControllerReturns None]"]
    by (simp add: NewManagedDhController_example)
qed

end
